theory Spec2Isabelle
  imports Complex_Main
begin

section \<open>Strings\<close>

text \<open>
  JavaScript strings are modelled as \<open>string\<close>. \<open>String.prototype.trim\<close> removes
  white space at both ends; the ASCII white space characters (tab, line feed, vertical
  tab, form feed, carriage return, space) are the ones modelled.
\<close>

definition is_ws :: "char \<Rightarrow> bool" where
  "is_ws c = ((of_char c :: nat) \<in> {9, 10, 11, 12, 13, 32})"

definition trim :: "string \<Rightarrow> string" where
  "trim s = rev (dropWhile is_ws (rev (dropWhile is_ws s)))"

text \<open>\<open>s.split(c)\<close> for a one-character separator: the empty string gives \<open>['']\<close>.\<close>

fun split_on :: "char \<Rightarrow> string \<Rightarrow> string list" where
  "split_on c [] = [[]]"
| "split_on c (x # xs) =
     (if x = c then [] # split_on c xs
      else (case split_on c xs of [] \<Rightarrow> [[x]] | w # ws \<Rightarrow> (x # w) # ws))"

text \<open>\<open>xs.join(sep)\<close>.\<close>

fun join :: "string \<Rightarrow> string list \<Rightarrow> string" where
  "join sep [] = []"
| "join sep [x] = x"
| "join sep (x # y # ys) = x @ sep @ join sep (y # ys)"

text \<open>\<open>s.includes(sub)\<close>.\<close>

fun str_includes :: "string \<Rightarrow> string \<Rightarrow> bool" where
  "str_includes [] sub = (sub = [])"
| "str_includes (x # xs) sub = (take (length sub) (x # xs) = sub \<or> str_includes xs sub)"

section \<open>The document\<close>

text \<open>
  A node is identified by a number. The shape of the document is a tree of node
  identities whose root is the Document node; what a node carries (tag name,
  attributes, class list, inline style, character data) is kept in a store indexed by
  the identity, so that writing an attribute does not touch the shape and moving a
  node does not touch its attributes. Text nodes have the tag \<open>#text\<close>, the Document
  node the tag \<open>#document\<close>. Tag names are the lower-case local names of HTML elements
  (\<open>tagName\<close> is their upper-case form). The \<open>class\<close> and \<open>style\<close> attributes are
  the fields \<open>classes\<close> (the tokens of \<open>classList\<close>) and \<open>style\<close> (the declarations
  of the inline style, property to value; a property assigned the empty string is
  removed; priorities are not modelled); every other attribute is in \<open>attrs\<close>.
\<close>

type_synonym nid = nat

datatype dtree = DNode nid "dtree list"

record elem =
  tag :: string
  attrs :: "string \<rightharpoonup> string"
  classes :: "string list"
  style :: "string \<rightharpoonup> string"
  text_data :: string

definition new_elem :: "string \<Rightarrow> elem" where
  "new_elem t = \<lparr>tag = t, attrs = Map.empty, classes = [], style = Map.empty, text_data = []\<rparr>"

definition new_text :: "string \<Rightarrow> elem" where
  "new_text s = \<lparr>tag = ''#text'', attrs = Map.empty, classes = [], style = Map.empty, text_data = s\<rparr>"

fun root_id :: "dtree \<Rightarrow> nid" where
  "root_id (DNode n cs) = n"

fun kids :: "dtree \<Rightarrow> dtree list" where
  "kids (DNode n cs) = cs"

text \<open>The nodes of a tree in document order.\<close>

fun nids :: "dtree \<Rightarrow> nid list" where
  "nids (DNode n cs) = n # concat (map nids cs)"

text \<open>The nodes in document order, each with its ancestors, the parent first.\<close>

fun walk :: "nid list \<Rightarrow> dtree \<Rightarrow> (nid \<times> nid list) list" where
  "walk anc (DNode n cs) = (n, anc) # concat (map (walk (n # anc)) cs)"

fun subtree :: "nid \<Rightarrow> dtree \<Rightarrow> dtree option"
  and subtree_list :: "nid \<Rightarrow> dtree list \<Rightarrow> dtree option" where
  "subtree n (DNode m cs) = (if n = m then Some (DNode m cs) else subtree_list n cs)"
| "subtree_list n [] = None"
| "subtree_list n (c # cs) =
     (case subtree n c of Some t \<Rightarrow> Some t | None \<Rightarrow> subtree_list n cs)"

text \<open>Applies \<open>f\<close> to the child list of node \<open>p\<close>.\<close>

fun map_children :: "nid \<Rightarrow> (dtree list \<Rightarrow> dtree list) \<Rightarrow> dtree \<Rightarrow> dtree" where
  "map_children p f (DNode n cs) =
     (if n = p then DNode n (f cs) else DNode n (map (map_children p f) cs))"

text \<open>\<open>node.remove()\<close> / \<open>parent.removeChild(node)\<close>: the node leaves with its subtree.\<close>

fun remove_node :: "nid \<Rightarrow> dtree \<Rightarrow> dtree" where
  "remove_node n (DNode m cs) =
     DNode m (map (remove_node n) (filter (\<lambda>c. root_id c \<noteq> n) cs))"

text \<open>What a removal leaves of a list of children.\<close>

definition rm_kids :: "nid \<Rightarrow> dtree list \<Rightarrow> dtree list" where
  "rm_kids n cs = map (remove_node n) (filter (\<lambda>c. root_id c \<noteq> n) cs)"

text \<open>\<open>parent.insertBefore(new, s.nextSibling)\<close> where \<open>parent\<close> is the parent of \<open>s\<close>.\<close>

fun ins_after :: "nid \<Rightarrow> dtree \<Rightarrow> dtree list \<Rightarrow> dtree list" where
  "ins_after s new [] = []"
| "ins_after s new (c # cs) =
     (if root_id c = s then c # new # cs else c # ins_after s new cs)"

fun insert_after :: "nid \<Rightarrow> dtree \<Rightarrow> dtree \<Rightarrow> dtree" where
  "insert_after s new (DNode n cs) =
     DNode n (ins_after s new (map (insert_after s new) cs))"

section \<open>The environment and the module state\<close>

datatype error = ReferenceError | TypeError | SyntaxError

datatype priority = Polite | Assertive

text \<open>
  The callbacks handed to \<open>requestAnimationFrame\<close> and \<open>setTimeout\<close>, as closures:
  the constructor names the function body, the arguments are the captured variables.
\<close>

datatype callback =
    AnnounceOuter nid string
  | AnnounceInner nid string
  | AnnounceClear nid
  | ToastFade nid
  | ForceLayout
  | FocusSpeak nid string

record voice =
  lang :: string
  localService :: bool

record utterance =
  utext :: string
  uvoice :: "voice option"

text \<open>
  What the browser has measured for an element: the width and height of
  \<open>getBoundingClientRect()\<close>, the \<open>width\<close> and \<open>height\<close> properties of an image, and
  \<open>offsetWidth\<close> and \<open>offsetHeight\<close>.
\<close>

record box =
  rect_width :: rat
  rect_height :: rat
  img_width :: rat
  img_height :: rat
  offsetWidth :: rat
  offsetHeight :: rat

text \<open>
  One record holds what the functions of the module can see: which globals exist
  (\<open>typeof document\<close>, \<open>typeof window\<close>, \<open>typeof navigator\<close>,
  \<open>'speechSynthesis' in window\<close>), the document, the module-level variables of
  \<open>screenReaderUtils.ts\<close> under their own names, the browser's queues of animation-frame
  callbacks and timers with the current time in milliseconds, the speech synthesiser's
  voices and queue of utterances, the console, the results of \<open>Math.random\<close>-based
  id suffixes (the \<open>k\<close>-th one made is \<open>random_suffix k\<close>), the measured boxes of the
  elements, and the conversion of a number to a string (as in a template literal).
\<close>

record world =
  document_defined :: bool
  window_defined :: bool
  navigator_defined :: bool
  speech_supported :: bool
  tree :: dtree
  elems :: "nid \<Rightarrow> elem"
  next_id :: nid
  originalAttributes :: "(nid \<times> (string \<times> string option) list) list"
  createdElements :: "nid list"
  liveRegionElement :: "nid option"
  debugMode :: bool
  useSpeechSynthesis :: bool
  focusReadingEnabled :: bool
  focusHandler :: bool
  keyboardHandler :: bool
  listeners :: "string list"
  activeElement :: "nid option"
  raf_queue :: "callback list"
  timers :: "(nat \<times> callback) list"
  now :: nat
  voices :: "voice list"
  speech_queue :: "utterance list"
  console :: "string list"
  random_suffix :: "nat \<Rightarrow> string"
  random_used :: nat
  layout :: "nid \<Rightarrow> box"
  number_string :: "rat \<Rightarrow> string"

section \<open>DOM operations\<close>

definition is_element :: "world \<Rightarrow> nid \<Rightarrow> bool" where
  "is_element w n = (tag (elems w n) \<noteq> ''#text'' \<and> tag (elems w n) \<noteq> ''#document'')"

definition getAttribute :: "world \<Rightarrow> nid \<Rightarrow> string \<Rightarrow> string option" where
  "getAttribute w n a = attrs (elems w n) a"

definition hasAttribute :: "world \<Rightarrow> nid \<Rightarrow> string \<Rightarrow> bool" where
  "hasAttribute w n a = (attrs (elems w n) a \<noteq> None)"

definition setAttribute :: "nid \<Rightarrow> string \<Rightarrow> string \<Rightarrow> world \<Rightarrow> world" where
  "setAttribute n a v w =
     w\<lparr>elems := (elems w)(n := (elems w n)\<lparr>attrs := (attrs (elems w n))(a \<mapsto> v)\<rparr>)\<rparr>"

definition removeAttribute :: "nid \<Rightarrow> string \<Rightarrow> world \<Rightarrow> world" where
  "removeAttribute n a w =
     w\<lparr>elems := (elems w)(n := (elems w n)\<lparr>attrs := (attrs (elems w n))(a := None)\<rparr>)\<rparr>"

text \<open>\<open>element.id\<close>: the \<open>id\<close> attribute, the empty string when it is absent.\<close>

definition elem_id :: "world \<Rightarrow> nid \<Rightarrow> string" where
  "elem_id w n = (case getAttribute w n ''id'' of None \<Rightarrow> [] | Some v \<Rightarrow> v)"

definition set_style :: "nid \<Rightarrow> string \<Rightarrow> string \<Rightarrow> world \<Rightarrow> world" where
  "set_style n p v w =
     w\<lparr>elems := (elems w)(n := (elems w n)\<lparr>style :=
           (style (elems w n))(p := (if v = [] then None else Some v))\<rparr>)\<rparr>"

text \<open>\<open>element.style.p\<close>: the empty string for a property that is not set.\<close>

definition get_style :: "world \<Rightarrow> nid \<Rightarrow> string \<Rightarrow> string" where
  "get_style w n p = (case style (elems w n) p of None \<Rightarrow> [] | Some v \<Rightarrow> v)"

text \<open>\<open>element.style.cssText = ...\<close> replaces the whole inline style.\<close>

definition set_cssText :: "nid \<Rightarrow> (string \<times> string) list \<Rightarrow> world \<Rightarrow> world" where
  "set_cssText n decls w =
     w\<lparr>elems := (elems w)(n := (elems w n)\<lparr>style := map_of decls\<rparr>)\<rparr>"

definition set_className :: "nid \<Rightarrow> string list \<Rightarrow> world \<Rightarrow> world" where
  "set_className n cl w = w\<lparr>elems := (elems w)(n := (elems w n)\<lparr>classes := cl\<rparr>)\<rparr>"

text \<open>The elements of the document in document order.\<close>

definition doc_elements :: "world \<Rightarrow> nid list" where
  "doc_elements w = filter (is_element w) (nids (tree w))"

text \<open>\<open>document.getElementById(i)\<close>; no element has the empty id.\<close>

definition getElementById :: "world \<Rightarrow> string \<Rightarrow> nid option" where
  "getElementById w i =
     (if i = [] then None
      else find (\<lambda>n. getAttribute w n ''id'' = Some i) (doc_elements w))"

definition child_ids :: "world \<Rightarrow> nid \<Rightarrow> nid list" where
  "child_ids w n = (case subtree n (tree w) of None \<Rightarrow> [] | Some t \<Rightarrow> map root_id (kids t))"

text \<open>
  \<open>document.documentElement\<close>, \<open>document.head\<close> and \<open>document.body\<close>: the first element
  child of the document; the first \<open>head\<close> child of the \<open>html\<close> element; its first
  \<open>body\<close> or \<open>frameset\<close> child. Each is \<open>null\<close> when there is none.
\<close>

definition documentElement_tree :: "world \<Rightarrow> dtree option" where
  "documentElement_tree w = find (\<lambda>c. is_element w (root_id c)) (kids (tree w))"

definition documentElement :: "world \<Rightarrow> nid option" where
  "documentElement w = map_option root_id (documentElement_tree w)"

definition document_head :: "world \<Rightarrow> nid option" where
  "document_head w =
     (case documentElement_tree w of None \<Rightarrow> None
      | Some ht \<Rightarrow> if tag (elems w (root_id ht)) \<noteq> ''html'' then None
                   else find (\<lambda>c. tag (elems w c) = ''head'') (map root_id (kids ht)))"

definition document_body :: "world \<Rightarrow> nid option" where
  "document_body w =
     (case documentElement_tree w of None \<Rightarrow> None
      | Some ht \<Rightarrow> if tag (elems w (root_id ht)) \<noteq> ''html'' then None
                   else find (\<lambda>c. tag (elems w c) = ''body'' \<or> tag (elems w c) = ''frameset'')
                          (map root_id (kids ht)))"

text \<open>The elements of the document that carry the id \<open>i\<close>, in document order.\<close>

definition ids_with :: "world \<Rightarrow> string \<Rightarrow> nid list" where
  "ids_with w i = filter (\<lambda>n. getAttribute w n ''id'' = Some i) (doc_elements w)"

text \<open>
  A well-formed document: no node occurs twice in the tree, the identities still to be
  handed out are not in it, and its root is the Document node.
\<close>

definition wf_world :: "world \<Rightarrow> bool" where
  "wf_world w =
     (distinct (nids (tree w)) \<and> list_all (\<lambda>n. n < next_id w) (nids (tree w)) \<and>
      tag (elems w (root_id (tree w))) = ''#document'')"

text \<open>\<open>document.createElement(t)\<close>: a fresh node, not yet in the document.\<close>

definition createElement :: "string \<Rightarrow> world \<Rightarrow> nid \<times> world" where
  "createElement t w =
     (next_id w, w\<lparr>elems := (elems w)(next_id w := new_elem t), next_id := Suc (next_id w)\<rparr>)"

definition createTextNode :: "string \<Rightarrow> world \<Rightarrow> nid \<times> world" where
  "createTextNode s w =
     (next_id w, w\<lparr>elems := (elems w)(next_id w := new_text s), next_id := Suc (next_id w)\<rparr>)"

text \<open>\<open>parent.appendChild(sub)\<close> for a subtree that is not in the document.\<close>

definition appendChild :: "nid \<Rightarrow> dtree \<Rightarrow> world \<Rightarrow> world" where
  "appendChild p sub w = w\<lparr>tree := map_children p (\<lambda>cs. cs @ [sub]) (tree w)\<rparr>"

definition remove :: "nid \<Rightarrow> world \<Rightarrow> world" where
  "remove n w = w\<lparr>tree := remove_node n (tree w)\<rparr>"

text \<open>\<open>while (n.firstChild) n.removeChild(n.firstChild)\<close>.\<close>

definition remove_all_children :: "nid \<Rightarrow> world \<Rightarrow> world" where
  "remove_all_children n w = w\<lparr>tree := map_children n (\<lambda>cs. []) (tree w)\<rparr>"

text \<open>
  \<open>node.textContent\<close> of a node of the document: the character data of the text nodes
  below it, in document order.
\<close>

definition textContent :: "world \<Rightarrow> nid \<Rightarrow> string" where
  "textContent w n =
     (case subtree n (tree w) of None \<Rightarrow> []
      | Some t \<Rightarrow> concat (map (\<lambda>m. if tag (elems w m) = ''#text'' then text_data (elems w m)
                                    else []) (nids t)))"

text \<open>
  \<open>node.textContent = s\<close> on a node of the document: the children are replaced by one
  text node, or by nothing when \<open>s\<close> is empty.
\<close>

definition set_textContent :: "nid \<Rightarrow> string \<Rightarrow> world \<Rightarrow> world" where
  "set_textContent n s w =
     (if s = [] then remove_all_children n w
      else (case createTextNode s w of
              (t, w1) \<Rightarrow> w1\<lparr>tree := map_children n (\<lambda>cs. [DNode t []]) (tree w1)\<rparr>))"

section \<open>Timers, animation frames and speech\<close>

definition requestAnimationFrame :: "callback \<Rightarrow> world \<Rightarrow> world" where
  "requestAnimationFrame cb w = w\<lparr>raf_queue := raf_queue w @ [cb]\<rparr>"

definition setTimeout :: "callback \<Rightarrow> nat \<Rightarrow> world \<Rightarrow> world" where
  "setTimeout cb ms w = w\<lparr>timers := timers w @ [(now w + ms, cb)]\<rparr>"

definition speech_cancel :: "world \<Rightarrow> world" where
  "speech_cancel w = w\<lparr>speech_queue := []\<rparr>"

definition starts_with_en :: "voice \<Rightarrow> bool" where
  "starts_with_en v = (take 2 (lang v) = ''en'')"

text \<open>
  \<open>voices.find(v => v.lang.startsWith('en') && v.localService) ||
   voices.find(v => v.lang.startsWith('en')) || voices[0]\<close>
\<close>

definition preferredVoice :: "voice list \<Rightarrow> voice option" where
  "preferredVoice vs =
     (case find (\<lambda>v. starts_with_en v \<and> localService v) vs of
        Some v \<Rightarrow> Some v
      | None \<Rightarrow> (case find starts_with_en vs of
                   Some v \<Rightarrow> Some v
                 | None \<Rightarrow> (case vs of [] \<Rightarrow> None | v # _ \<Rightarrow> Some v)))"

text \<open>\<open>speakMessage\<close> (rate, pitch and volume of the utterance are the constant 1).\<close>

definition speakMessage :: "string \<Rightarrow> priority \<Rightarrow> world \<Rightarrow> world" where
  "speakMessage message prio w =
     (if \<not> window_defined w \<or> \<not> speech_supported w
      then w\<lparr>console := console w @ [''Speech synthesis not supported in this browser'']\<rparr>
      else
        let w1 = (if prio = Assertive then speech_cancel w else w);
            u = \<lparr>utext = message, uvoice = preferredVoice (voices w1)\<rparr>
        in w1\<lparr>speech_queue := speech_queue w1 @ [u]\<rparr>)"

text \<open>\<open>stopSpeaking\<close>\<close>

definition stopSpeaking :: "world \<Rightarrow> world" where
  "stopSpeaking w = (if window_defined w \<and> speech_supported w then speech_cancel w else w)"

section \<open>The announcer\<close>

definition ANNOUNCER_CONTAINER_ID :: string where
  "ANNOUNCER_CONTAINER_ID = ''accessibility-announcer-container''"

definition POLITE_ANNOUNCER_ID :: string where
  "POLITE_ANNOUNCER_ID = ''accessibility-announcer-polite''"

definition ASSERTIVE_ANNOUNCER_ID :: string where
  "ASSERTIVE_ANNOUNCER_ID = ''accessibility-announcer-assertive''"

definition SR_ONLY_STYLES :: "(string \<times> string) list" where
  "SR_ONLY_STYLES =
     [(''position'', ''absolute !important''),
      (''width'', ''1px !important''),
      (''height'', ''1px !important''),
      (''padding'', ''0 !important''),
      (''margin'', ''-1px !important''),
      (''overflow'', ''hidden !important''),
      (''clip-path'', ''inset(50%) !important''),
      (''white-space'', ''nowrap !important''),
      (''border'', ''0 !important'')]"

definition createLiveRegion :: "string \<Rightarrow> priority \<Rightarrow> world \<Rightarrow> nid \<times> world" where
  "createLiveRegion i ariaLive w =
     (case createElement ''div'' w of
        (region, w1) \<Rightarrow>
          (region,
           set_cssText region SR_ONLY_STYLES
             (setAttribute region ''aria-atomic'' ''true''
               (setAttribute region ''aria-live''
                  (if ariaLive = Assertive then ''assertive'' else ''polite'')
                 (setAttribute region ''role''
                    (if ariaLive = Assertive then ''alert'' else ''status'')
                   (setAttribute region ''id'' i w1))))))"

text \<open>
  \<open>getOrCreateAnnouncerContainer\<close> returns the polite and the assertive region. The
  three lookups come first; \<open>document.body.appendChild\<close> throws a TypeError when
  there is no body.
\<close>

definition getOrCreateAnnouncerContainer :: "world \<Rightarrow> error + ((nid \<times> nid) \<times> world)" where
  "getOrCreateAnnouncerContainer w =
     (let container0 = getElementById w ANNOUNCER_CONTAINER_ID;
          politeRegion0 = getElementById w POLITE_ANNOUNCER_ID;
          assertiveRegion0 = getElementById w ASSERTIVE_ANNOUNCER_ID;
          r1 = (case container0 of
                  Some c \<Rightarrow> Inr (c, w)
                | None \<Rightarrow>
                    (case createElement ''div'' w of
                       (c, w1) \<Rightarrow>
                         (let w2 = set_cssText c SR_ONLY_STYLES
                                     (setAttribute c ''id'' ANNOUNCER_CONTAINER_ID w1)
                          in case document_body w2 of
                               None \<Rightarrow> Inl TypeError
                             | Some b \<Rightarrow> Inr (c, appendChild b (DNode c []) w2))))
      in case r1 of
           Inl e \<Rightarrow> Inl e
         | Inr (container, wa) \<Rightarrow>
             (let (politeRegion, wb) =
                    (case politeRegion0 of
                       Some p \<Rightarrow> (p, wa)
                     | None \<Rightarrow>
                         (case createLiveRegion POLITE_ANNOUNCER_ID Polite wa of
                            (p, w3) \<Rightarrow> (p, appendChild container (DNode p []) w3)));
                  (assertiveRegion, wc) =
                    (case assertiveRegion0 of
                       Some a \<Rightarrow> (a, wb)
                     | None \<Rightarrow>
                         (case createLiveRegion ASSERTIVE_ANNOUNCER_ID Assertive wb of
                            (a, w4) \<Rightarrow> (a, appendChild container (DNode a []) w4)))
              in Inr ((politeRegion, assertiveRegion), wc)))"

definition toast_background :: "priority \<Rightarrow> string" where
  "toast_background prio = (if prio = Assertive then ''#dc2626'' else ''#2563eb'')"

definition toast_styles :: "priority \<Rightarrow> (string \<times> string) list" where
  "toast_styles prio =
     [(''position'', ''fixed''),
      (''bottom'', ''20px''),
      (''left'', ''50%''),
      (''transform'', ''translateX(-50%)''),
      (''background'', toast_background prio),
      (''color'', ''white''),
      (''padding'', ''12px 24px''),
      (''border-radius'', ''8px''),
      (''font-size'', ''14px''),
      (''z-index'', ''99999''),
      (''box-shadow'', ''0 4px 12px rgba(0,0,0,0.3)''),
      (''transition'', ''opacity 0.3s ease''),
      (''max-width'', ''80%''),
      (''text-align'', ''center'')]"

text \<open>The prefix of the toast text: the loudspeaker sign U+1F50A in UTF-8, and a space.\<close>

definition toast_prefix :: string where
  "toast_prefix = [char_of (240::nat), char_of (159::nat), char_of (148::nat),
                   char_of (138::nat), CHR '' '']"

definition showDebugToast :: "string \<Rightarrow> priority \<Rightarrow> world \<Rightarrow> error + world" where
  "showDebugToast message prio w =
     (let r = (case getElementById w ''accessibility-debug-toast'' of
                 Some t \<Rightarrow> Inr (t, w)
               | None \<Rightarrow>
                   (case createElement ''div'' w of
                      (t, w1) \<Rightarrow>
                        (let w2 = set_cssText t (toast_styles prio)
                                    (setAttribute t ''id'' ''accessibility-debug-toast'' w1)
                         in case document_body w2 of
                              None \<Rightarrow> Inl TypeError
                            | Some b \<Rightarrow> Inr (t, appendChild b (DNode t []) w2))))
      in case r of
           Inl e \<Rightarrow> Inl e
         | Inr (toast, wa) \<Rightarrow>
             Inr (setTimeout (ToastFade toast) 3000
                   (set_style toast ''background'' (toast_background prio)
                     (set_style toast ''opacity'' (''1'')
                       (set_textContent toast (toast_prefix @ message) wa)))))"

text \<open>
  \<open>announceToScreenReader(message, priority)\<close>. The outer animation-frame callback
  only requests the inner one; the inner one appends the text node and sets the
  five-second timer that empties the region.
\<close>

definition announceToScreenReader :: "string \<Rightarrow> priority \<Rightarrow> world \<Rightarrow> error + world" where
  "announceToScreenReader message prio w =
     (if \<not> document_defined w \<or> message = [] then Inr w
      else
        case (if debugMode w then showDebugToast message prio w else Inr w) of
          Inl e \<Rightarrow> Inl e
        | Inr w1 \<Rightarrow>
            (let w2 = (if useSpeechSynthesis w1 then speakMessage message prio w1 else w1)
             in case getOrCreateAnnouncerContainer w2 of
                  Inl e \<Rightarrow> Inl e
                | Inr ((polite, assertive), w3) \<Rightarrow>
                    (let announcer = (if prio = Assertive then assertive else polite)
                     in Inr (requestAnimationFrame (AnnounceOuter announcer message)
                              (remove_all_children announcer w3)))))"

text \<open>The bodies of the callbacks.\<close>

fun run_callback :: "callback \<Rightarrow> world \<Rightarrow> world" where
  "run_callback (AnnounceOuter announcer message) w =
     requestAnimationFrame (AnnounceInner announcer message) w"
| "run_callback (AnnounceInner announcer message) w =
     (case createTextNode message w of
        (textNode, w1) \<Rightarrow>
          setTimeout (AnnounceClear announcer) 5000
            (appendChild announcer (DNode textNode []) w1))"
| "run_callback (AnnounceClear announcer) w = remove_all_children announcer w"
| "run_callback (ToastFade toast) w = set_style toast ''opacity'' (''0'') w"
| "run_callback ForceLayout w = w"
| "run_callback (FocusSpeak target announcement) w =
     (if activeElement w = Some target then speakMessage announcement Polite w else w)"

text \<open>
  One animation frame: the callbacks requested so far run in order; those requested
  while they run wait for the next frame.
\<close>

definition animation_frame :: "world \<Rightarrow> world" where
  "animation_frame w = fold run_callback (raf_queue w) (w\<lparr>raf_queue := []\<rparr>)"

text \<open>
  \<open>ms\<close> milliseconds pass: the timers that are due by then fire in the order of their
  due times (set order among equals); a timer set by one of them stays pending.
\<close>

definition advance_time :: "nat \<Rightarrow> world \<Rightarrow> world" where
  "advance_time ms w =
     (let t = now w + ms;
          due = filter (\<lambda>(d, cb). d \<le> t) (timers w);
          rest = filter (\<lambda>(d, cb). \<not> d \<le> t) (timers w)
      in fold run_callback (map snd (sort_key fst due)) (w\<lparr>now := t, timers := rest\<rparr>))"

section \<open>Selectors\<close>

text \<open>
  A selector is a predicate on an element and its ancestors. \<open>querySelectorAll\<close> gives
  the matching elements of the document in document order, \<open>querySelector\<close> the first
  of them. A query on an element looks at its descendants only.
\<close>

type_synonym selector = "world \<Rightarrow> nid \<Rightarrow> nid list \<Rightarrow> bool"

definition querySelectorAll :: "selector \<Rightarrow> world \<Rightarrow> nid list" where
  "querySelectorAll sel w =
     map fst (filter (\<lambda>(n, anc). is_element w n \<and> sel w n anc) (walk [] (tree w)))"

definition querySelector :: "selector \<Rightarrow> world \<Rightarrow> nid option" where
  "querySelector sel w = (case querySelectorAll sel w of [] \<Rightarrow> None | n # _ \<Rightarrow> Some n)"

definition querySelectorAll_in :: "nid \<Rightarrow> selector \<Rightarrow> world \<Rightarrow> nid list" where
  "querySelectorAll_in e sel w =
     map fst (filter (\<lambda>(n, anc). e \<in> set anc \<and> is_element w n \<and> sel w n anc)
                     (walk [] (tree w)))"

definition querySelector_in :: "nid \<Rightarrow> selector \<Rightarrow> world \<Rightarrow> nid option" where
  "querySelector_in e sel w =
     (case querySelectorAll_in e sel w of [] \<Rightarrow> None | n # _ \<Rightarrow> Some n)"

text \<open>\<open>node.parentElement\<close>: the parent when it is an element.\<close>

definition ancestors_of :: "world \<Rightarrow> nid \<Rightarrow> nid list" where
  "ancestors_of w n =
     (case find (\<lambda>(m, anc). m = n) (walk [] (tree w)) of None \<Rightarrow> [] | Some (m, anc) \<Rightarrow> anc)"

definition parentElement :: "world \<Rightarrow> nid \<Rightarrow> nid option" where
  "parentElement w n =
     (case ancestors_of w n of [] \<Rightarrow> None
      | p # _ \<Rightarrow> if is_element w p then Some p else None)"

text \<open>The simple selectors: \<open>t\<close>, \<open>[a]\<close>, \<open>[a="v"]\<close>, \<open>[a*="v"]\<close>, \<open>#i\<close>, \<open>.c\<close>, \<open>[class*="v"]\<close>.\<close>

definition sel_tag :: "string \<Rightarrow> selector" where
  "sel_tag t w n anc = (tag (elems w n) = t)"

definition sel_has :: "string \<Rightarrow> selector" where
  "sel_has a w n anc = hasAttribute w n a"

definition sel_attr :: "string \<Rightarrow> string \<Rightarrow> selector" where
  "sel_attr a v w n anc = (getAttribute w n a = Some v)"

definition sel_attr_sub :: "string \<Rightarrow> string \<Rightarrow> selector" where
  "sel_attr_sub a v w n anc =
     (case getAttribute w n a of None \<Rightarrow> False | Some x \<Rightarrow> v \<noteq> [] \<and> str_includes x v)"

definition sel_id :: "string \<Rightarrow> selector" where
  "sel_id i w n anc = (getAttribute w n ''id'' = Some i)"

definition sel_class :: "string \<Rightarrow> selector" where
  "sel_class c w n anc = (c \<in> set (classes (elems w n)))"

definition sel_class_sub :: "string \<Rightarrow> selector" where
  "sel_class_sub v w n anc = (v \<noteq> [] \<and> str_includes (join '' '' (classes (elems w n))) v)"

text \<open>\<open>a b\<close> (descendant), \<open>a, b\<close>, compound \<open>ab\<close> and \<open>:not(a)\<close>.\<close>

fun has_ancestor :: "selector \<Rightarrow> world \<Rightarrow> nid list \<Rightarrow> bool" where
  "has_ancestor outer w [] = False"
| "has_ancestor outer w (a # anc) =
     ((is_element w a \<and> outer w a anc) \<or> has_ancestor outer w anc)"

definition sel_inside :: "selector \<Rightarrow> selector \<Rightarrow> selector" where
  "sel_inside outer inner w n anc = (inner w n anc \<and> has_ancestor outer w anc)"

definition sel_or :: "selector \<Rightarrow> selector \<Rightarrow> selector" where
  "sel_or a b w n anc = (a w n anc \<or> b w n anc)"

definition sel_and :: "selector \<Rightarrow> selector \<Rightarrow> selector" where
  "sel_and a b w n anc = (a w n anc \<and> b w n anc)"

definition sel_not :: "selector \<Rightarrow> selector" where
  "sel_not a w n anc = (\<not> a w n anc)"

text \<open>\<open>main, [role="main"], #main, #content, .main-content\<close>\<close>

definition main_selector :: selector where
  "main_selector =
     sel_or (sel_tag ''main'') (sel_or (sel_attr ''role'' ''main'')
       (sel_or (sel_id ''main'') (sel_or (sel_id ''content'') (sel_class ''main-content''))))"

section \<open>Helpers of the queries\<close>

text \<open>
  In \<open>label[for="${id}"]\<close> the id is pasted into the selector text. For an id without
  a double quote, a backslash or a line break the text is the selector that matches the
  \<open>label\<close> elements whose \<open>for\<close> attribute is the id. For another id the text is some
  other selector or none at all (\<open>querySelector\<close> then throws a SyntaxError); the
  model gives SyntaxError for all of them.
\<close>

definition css_string_safe :: "string \<Rightarrow> bool" where
  "css_string_safe i =
     (\<forall>c \<in> set i. (of_char c :: nat) \<notin> {0, 10, 12, 13, 34, 92})"

definition label_for :: "string \<Rightarrow> world \<Rightarrow> error + nid option" where
  "label_for i w =
     (if \<not> css_string_safe i then Inl SyntaxError
      else Inr (querySelector (sel_and (sel_tag ''label'') (sel_attr ''for'' i)) w))"

text \<open>
  \<open>labelledBy.split(' ').map(id => document.getElementById(id)).filter(Boolean)\<close>
\<close>

definition labelledby_elements :: "world \<Rightarrow> string \<Rightarrow> nid list" where
  "labelledby_elements w labelledBy =
     concat (map (\<lambda>i. case getElementById w i of None \<Rightarrow> [] | Some n \<Rightarrow> [n])
                 (split_on CHR '' '' labelledBy))"

definition is_form_control :: "world \<Rightarrow> nid \<Rightarrow> bool" where
  "is_form_control w n =
     (tag (elems w n) = ''input'' \<or> tag (elems w n) = ''select'' \<or> tag (elems w n) = ''textarea'')"

definition attr_or_empty :: "world \<Rightarrow> nid \<Rightarrow> string \<Rightarrow> string" where
  "attr_or_empty w n a = (case getAttribute w n a of None \<Rightarrow> [] | Some v \<Rightarrow> v)"

section \<open>Screen-reader mode\<close>

record ScreenReaderConfig =
  enhancedAria :: bool
  skipLinks :: bool
  enhancedFocus :: bool
  landmarkRoles :: bool
  liveRegions :: bool
  announcementDelay :: nat
  readOnFocus :: bool
  keyboardShortcuts :: bool

definition defaultScreenReaderConfig :: ScreenReaderConfig where
  "defaultScreenReaderConfig =
     \<lparr>enhancedAria = True, skipLinks = True, enhancedFocus = True, landmarkRoles = True,
      liveRegions = True, announcementDelay = 100, readOnFocus = True,
      keyboardShortcuts = True\<rparr>"

text \<open>
  \<open>originalAttributes\<close> is a \<open>Map\<close> from elements to \<open>Map\<close>s from attribute names to the
  value read (\<open>null\<close> is \<open>None\<close>); both are association lists in insertion order.
  \<open>storeOriginalAttribute\<close> adds the element when it has no entry, and the attribute
  when the element's map has none for it.
\<close>

definition storeOriginalAttribute :: "nid \<Rightarrow> string \<Rightarrow> world \<Rightarrow> world" where
  "storeOriginalAttribute element attrName w =
     (let m1 = (if map_of (originalAttributes w) element = None
                then originalAttributes w @ [(element, [])] else originalAttributes w);
          attrs = (case map_of m1 element of None \<Rightarrow> [] | Some as \<Rightarrow> as)
      in if map_of attrs attrName \<noteq> None then w\<lparr>originalAttributes := m1\<rparr>
         else w\<lparr>originalAttributes :=
                  map (\<lambda>(e, as). if e = element
                         then (e, as @ [(attrName, getAttribute w element attrName)])
                         else (e, as)) m1\<rparr>)"

text \<open>A \<open>forEach\<close> whose body can throw stops at the first error.\<close>

fun fold_err :: "('a \<Rightarrow> world \<Rightarrow> error + world) \<Rightarrow> 'a list \<Rightarrow> world \<Rightarrow> error + world" where
  "fold_err f [] w = Inr w"
| "fold_err f (x # xs) w = (case f x w of Inl e \<Rightarrow> Inl e | Inr w1 \<Rightarrow> fold_err f xs w1)"

text \<open>The next \<open>Math.random().toString(36).substr(2, 9)\<close>.\<close>

definition next_random :: "world \<Rightarrow> string \<times> world" where
  "next_random w = (random_suffix w (random_used w), w\<lparr>random_used := Suc (random_used w)\<rparr>)"

subsection \<open>applyEnhancedAria\<close>

definition enhance_image :: "nid \<Rightarrow> world \<Rightarrow> world" where
  "enhance_image img w =
     setAttribute img ''role'' ''img''
       (setAttribute img ''alt'' ''Image''
         (storeOriginalAttribute img ''role'' (storeOriginalAttribute img ''alt'' w)))"

definition enhance_link :: "nid \<Rightarrow> world \<Rightarrow> world" where
  "enhance_link link w =
     (let txt = trim (textContent w link)
      in if txt = [] \<or> length txt < 2
         then (let w1 = storeOriginalAttribute link ''aria-label'' w;
                   href = attr_or_empty w1 link ''href''
               in setAttribute link ''aria-label''
                    (''Link to '' @ (if href \<noteq> [] then href else ''page'')) w1)
         else w)"

definition enhance_button :: "nid \<Rightarrow> world \<Rightarrow> world" where
  "enhance_button button w =
     (if trim (textContent w button) = []
      then setAttribute button ''aria-label'' ''Button''
             (storeOriginalAttribute button ''aria-label'' w)
      else w)"

definition enhance_nav_link :: "nid \<Rightarrow> world \<Rightarrow> world" where
  "enhance_nav_link link w =
     setAttribute link ''aria-current'' ''page'' (storeOriginalAttribute link ''aria-current'' w)"

definition enhance_input :: "nid \<Rightarrow> world \<Rightarrow> error + world" where
  "enhance_input input w =
     (let i = attr_or_empty w input ''id'';
          placeholder = attr_or_empty w input ''placeholder'';
          ty = (if attr_or_empty w input ''type'' \<noteq> [] then attr_or_empty w input ''type''
                else ''text'')
      in case (if i \<noteq> [] then label_for i w else Inr None) of
           Inl e \<Rightarrow> Inl e
         | Inr (Some label) \<Rightarrow> Inr w
         | Inr None \<Rightarrow>
             Inr (setAttribute input ''aria-label''
                    (if placeholder \<noteq> [] then placeholder else ty @ '' input'')
                    (storeOriginalAttribute input ''aria-label'' w)))"

definition enhance_fieldset :: "nid \<Rightarrow> world \<Rightarrow> world" where
  "enhance_fieldset fieldset w =
     (case querySelector_in fieldset (sel_tag ''legend'') w of
        None \<Rightarrow> w
      | Some legend \<Rightarrow>
          if elem_id w legend \<noteq> [] then w
          else (case next_random w of
                  (r, w1) \<Rightarrow>
                    (let legendId = ''legend-'' @ r
                     in setAttribute fieldset ''aria-labelledby'' legendId
                          (storeOriginalAttribute fieldset ''aria-labelledby''
                            (setAttribute legend ''id'' legendId w1)))))"

definition enhance_th :: "nid \<Rightarrow> world \<Rightarrow> world" where
  "enhance_th th w =
     (let w1 = storeOriginalAttribute th ''scope'' w;
          isRowHeader =
            (case parentElement w1 th of None \<Rightarrow> False
             | Some p \<Rightarrow> (case parentElement w1 p of None \<Rightarrow> False
                          | Some g \<Rightarrow> tag (elems w1 g) = ''tbody''))
      in setAttribute th ''scope'' (if isRowHeader then ''row'' else ''col'') w1)"

definition enhance_table :: "nid \<Rightarrow> world \<Rightarrow> world" where
  "enhance_table tbl w =
     (let w1 = setAttribute tbl ''role'' ''table'' (storeOriginalAttribute tbl ''role'' w)
      in fold enhance_th
           (querySelectorAll_in tbl (sel_and (sel_tag ''th'') (sel_not (sel_has ''scope''))) w1)
           w1)"

definition enhance_collapsible :: "nid \<Rightarrow> world \<Rightarrow> world" where
  "enhance_collapsible element w =
     (if hasAttribute w element ''aria-expanded'' then w
      else (let w1 = storeOriginalAttribute element ''aria-expanded'' w;
                isExpanded = (''expanded'' \<in> set (classes (elems w1 element)) \<or>
                              getAttribute w1 element ''data-expanded'' = Some ''true'')
            in setAttribute element ''aria-expanded''
                 (if isExpanded then ''true'' else ''false'') w1))"

definition unnamed :: selector where
  "unnamed = sel_and (sel_not (sel_has ''aria-label'')) (sel_not (sel_has ''aria-labelledby''))"

definition applyEnhancedAria :: "world \<Rightarrow> error + world" where
  "applyEnhancedAria w =
     (let w1 = fold enhance_image
                 (querySelectorAll (sel_and (sel_tag ''img'') (sel_not (sel_has ''alt''))) w) w;
          w2 = fold enhance_link (querySelectorAll (sel_and (sel_tag ''a'') unnamed) w1) w1;
          w3 = fold enhance_button (querySelectorAll (sel_and (sel_tag ''button'') unnamed) w2) w2;
          w4 = fold enhance_nav_link
                 (querySelectorAll
                    (sel_or (sel_inside (sel_tag ''nav'')
                               (sel_and (sel_tag ''a'') (sel_class_sub ''active'')))
                            (sel_inside (sel_tag ''nav'')
                               (sel_and (sel_tag ''a'') (sel_class_sub ''current'')))) w3) w3
      in case fold_err enhance_input
                (querySelectorAll (sel_and (sel_tag ''input'') unnamed) w4) w4 of
           Inl e \<Rightarrow> Inl e
         | Inr w5 \<Rightarrow>
             (let w6 = fold enhance_fieldset
                         (querySelectorAll
                            (sel_and (sel_tag ''fieldset'') (sel_not (sel_has ''aria-describedby'')))
                            w5) w5;
                  w7 = fold enhance_table
                         (querySelectorAll (sel_and (sel_tag ''table'') (sel_not (sel_has ''role'')))
                            w6) w6
              in Inr (fold enhance_collapsible
                        (querySelectorAll
                           (sel_or (sel_has ''data-collapsed'')
                              (sel_or (sel_has ''data-expanded'')
                                 (sel_or (sel_class ''collapsible'') (sel_class ''accordion-header''))))
                           w7) w7)))"

subsection \<open>createSkipLinks\<close>

text \<open>
  The texts of the style sheets are long constants of the source that no operation
  reads; the functions that inject one take it as the parameter \<open>css\<close>.
\<close>

definition skipTargets :: "(string \<times> string \<times> selector) list" where
  "skipTargets =
     [(''main-content'', ''Skip to main content'', main_selector),
      (''main-navigation'', ''Skip to navigation'',
         sel_or (sel_tag ''nav'') (sel_or (sel_attr ''role'' ''navigation'')
           (sel_or (sel_id ''nav'') (sel_or (sel_id ''navigation'') (sel_class ''navigation''))))),
      (''search'', ''Skip to search'',
         sel_or (sel_attr ''role'' ''search'') (sel_or (sel_id ''search'')
           (sel_or (sel_class ''search-form'')
              (sel_and (sel_tag ''input'') (sel_attr ''type'' ''search''))))),
      (''footer'', ''Skip to footer'',
         sel_or (sel_tag ''footer'') (sel_or (sel_attr ''role'' ''contentinfo'')
           (sel_or (sel_id ''footer'') (sel_class ''footer''))))]"

text \<open>
  One round of the loop over the targets. The container is not in the document yet:
  its links are collected in a list. (The click listener of a link is not modelled.)
\<close>

definition skip_target_step ::
    "string \<times> string \<times> selector \<Rightarrow> dtree list \<times> world \<Rightarrow> dtree list \<times> world" where
  "skip_target_step tgt lw =
     (case tgt of (i, label, selector) \<Rightarrow>
      case lw of (links, w) \<Rightarrow>
        (case querySelector selector w of
           None \<Rightarrow> (links, w)
         | Some target \<Rightarrow>
             (let w1 = (if elem_id w target = [] then setAttribute target ''id'' i w else w);
                  w2 = (if \<not> hasAttribute w1 target ''tabindex''
                        then setAttribute target ''tabindex'' ''-1''
                               (storeOriginalAttribute target ''tabindex'' w1)
                        else w1)
              in case createElement ''a'' w2 of
                   (skipLink, w3) \<Rightarrow>
                     (let w4 = set_className skipLink [''sr-skip-link'']
                                 (setAttribute skipLink ''href'' (''#'' @ elem_id w3 target) w3)
                      in case createTextNode label w4 of
                           (t, w5) \<Rightarrow> (links @ [DNode skipLink [DNode t []]], w5)))))"

definition insert_first_child :: "nid \<Rightarrow> dtree \<Rightarrow> world \<Rightarrow> world" where
  "insert_first_child p sub w = w\<lparr>tree := map_children p (\<lambda>cs. sub # cs) (tree w)\<rparr>"

text \<open>
  Injecting a style element with the id \<open>i\<close> and the text \<open>css\<close>, unless the document
  has an element with that id (\<open>addSkipLinkStyles\<close>, \<open>applyEnhancedFocus\<close>).
\<close>

definition add_managed_style :: "string \<Rightarrow> string \<Rightarrow> world \<Rightarrow> error + world" where
  "add_managed_style i css w =
     (if getElementById w i \<noteq> None then Inr w
      else case createElement ''style'' w of
             (st, w1) \<Rightarrow>
               (let w2 = setAttribute st ''id'' i w1
                in case (if css = [] then (([]::dtree list), w2)
                         else (case createTextNode css w2 of (t, w3) \<Rightarrow> ([DNode t []], w3))) of
                     (ks, w4) \<Rightarrow>
                       (case document_head w4 of
                          None \<Rightarrow> Inl TypeError
                        | Some h \<Rightarrow>
                            Inr ((appendChild h (DNode st ks) w4)
                                   \<lparr>createdElements := createdElements w4 @ [st]\<rparr>))))"

definition addSkipLinkStyles :: "string \<Rightarrow> world \<Rightarrow> error + world" where
  "addSkipLinkStyles css w = add_managed_style ''skip-link-styles'' css w"

definition createSkipLinks :: "string \<Rightarrow> world \<Rightarrow> error + world" where
  "createSkipLinks css w =
     (if getElementById w ''skip-links-container'' \<noteq> None then Inr w
      else case createElement ''div'' w of
             (container, w1) \<Rightarrow>
               (let w2 = setAttribute container ''aria-label'' ''Skip links''
                           (setAttribute container ''role'' ''navigation''
                             (set_className container [''sr-skip-links'']
                               (setAttribute container ''id'' ''skip-links-container'' w1)))
                in case fold skip_target_step skipTargets ([], w2) of
                     (links, w3) \<Rightarrow>
                       if links = [] then Inr w3
                       else (case document_body w3 of
                               None \<Rightarrow> Inl TypeError
                             | Some b \<Rightarrow>
                                 addSkipLinkStyles css
                                   ((insert_first_child b (DNode container links) w3)
                                      \<lparr>createdElements := createdElements w3 @ [container]\<rparr>))))"

definition applyEnhancedFocus :: "string \<Rightarrow> world \<Rightarrow> error + world" where
  "applyEnhancedFocus css w = add_managed_style ''screen-reader-focus-styles'' css w"

subsection \<open>applyLandmarkRoles\<close>

definition landmark_first :: "string \<Rightarrow> string \<Rightarrow> world \<Rightarrow> world" where
  "landmark_first t role w =
     (case querySelector (sel_and (sel_tag t) (sel_not (sel_has ''role''))) w of
        None \<Rightarrow> w
      | Some e \<Rightarrow> setAttribute e ''role'' role (storeOriginalAttribute e ''role'' w))"

text \<open>The decimal digits of a number, for \<open>`Navigation ${index + 1}`\<close>.\<close>

fun digits :: "nat \<Rightarrow> nat \<Rightarrow> string" where
  "digits 0 n = []"
| "digits (Suc fuel) n =
     (if n < 10 then [char_of (48 + n)]
      else digits fuel (n div 10) @ [char_of (48 + n mod 10)])"

definition show_nat :: "nat \<Rightarrow> string" where
  "show_nat n = digits (Suc n) n"

definition landmark_indexed ::
    "string \<Rightarrow> (nat \<Rightarrow> string) \<Rightarrow> nat \<times> nid \<Rightarrow> world \<Rightarrow> world" where
  "landmark_indexed role label ie w =
     (case ie of (index, e) \<Rightarrow>
        (let w1 = setAttribute e ''role'' role
                    (storeOriginalAttribute e ''aria-label'' (storeOriginalAttribute e ''role'' w))
         in if attr_or_empty w1 e ''aria-label'' = []
            then setAttribute e ''aria-label'' (label index) w1 else w1))"

definition landmark_search :: "nid \<Rightarrow> world \<Rightarrow> world" where
  "landmark_search form w =
     (if attr_or_empty w form ''role'' = []
      then setAttribute form ''role'' ''search'' (storeOriginalAttribute form ''role'' w)
      else w)"

definition heading_selector :: selector where
  "heading_selector =
     sel_or (sel_tag ''h1'') (sel_or (sel_tag ''h2'') (sel_or (sel_tag ''h3'')
       (sel_or (sel_tag ''h4'') (sel_or (sel_tag ''h5'') (sel_tag ''h6'')))))"

definition landmark_section :: "nid \<Rightarrow> world \<Rightarrow> world" where
  "landmark_section section w =
     (case querySelector_in section heading_selector w of
        None \<Rightarrow> w
      | Some heading \<Rightarrow>
          (let w1 = (if elem_id w heading = []
                     then (case next_random w of
                             (r, wr) \<Rightarrow> setAttribute heading ''id'' (''section-heading-'' @ r) wr)
                     else w)
           in setAttribute section ''aria-labelledby'' (elem_id w1 heading)
                (storeOriginalAttribute section ''aria-labelledby'' w1)))"

definition applyLandmarkRoles :: "world \<Rightarrow> world" where
  "applyLandmarkRoles w =
     (let w1 = landmark_first ''main'' ''main'' w;
          navs = querySelectorAll (sel_and (sel_tag ''nav'') (sel_not (sel_has ''role''))) w1;
          w2 = fold (landmark_indexed ''navigation''
                       (\<lambda>index. if index = 0 then ''Main navigation''
                                 else ''Navigation '' @ show_nat (index + 1)))
                    (zip [0 ..< length navs] navs) w1;
          w3 = landmark_first ''header'' ''banner'' w2;
          w4 = landmark_first ''footer'' ''contentinfo'' w3;
          asides = querySelectorAll (sel_and (sel_tag ''aside'') (sel_not (sel_has ''role''))) w4;
          w5 = fold (landmark_indexed ''complementary''
                       (\<lambda>index. ''Sidebar '' @ show_nat (index + 1)))
                    (zip [0 ..< length asides] asides) w4;
          w6 = fold landmark_search
                 (querySelectorAll
                    (sel_or (sel_and (sel_tag ''form'') (sel_attr_sub ''action'' ''search''))
                       (sel_or (sel_and (sel_tag ''form'') (sel_class ''search''))
                          (sel_class ''search-form''))) w5) w5
      in fold landmark_section
           (querySelectorAll (sel_and (sel_tag ''section'') (sel_not (sel_has ''aria-labelledby'')))
              w6) w6)"

subsection \<open>The live region of the mode, focus reading\<close>

definition live_region_styles :: "(string \<times> string) list" where
  "live_region_styles =
     [(''position'', ''absolute !important''),
      (''width'', ''1px !important''),
      (''height'', ''1px !important''),
      (''padding'', ''0 !important''),
      (''margin'', ''-1px !important''),
      (''overflow'', ''hidden !important''),
      (''clip'', ''rect(0, 0, 0, 0) !important''),
      (''white-space'', ''nowrap !important''),
      (''border'', ''0 !important'')]"

definition createGlobalLiveRegion :: "world \<Rightarrow> error + world" where
  "createGlobalLiveRegion w =
     (if liveRegionElement w \<noteq> None then Inr w
      else case createElement ''div'' w of
             (r, w1) \<Rightarrow>
               (let w2 = set_cssText r live_region_styles
                           (set_className r [''sr-only'']
                             (setAttribute r ''aria-atomic'' ''true''
                               (setAttribute r ''aria-live'' ''polite''
                                 (setAttribute r ''role'' ''status''
                                   (setAttribute r ''id'' ''screen-reader-live-region''
                                     (w1\<lparr>liveRegionElement := Some r\<rparr>))))))
                in case document_body w2 of
                     None \<Rightarrow> Inl TypeError
                   | Some b \<Rightarrow>
                       Inr ((appendChild b (DNode r []) w2)
                              \<lparr>createdElements := createdElements w2 @ [r]\<rparr>)))"

definition enableFocusReading :: "world \<Rightarrow> error + world" where
  "enableFocusReading w =
     (if focusReadingEnabled w then Inr w
      else if \<not> document_defined w then Inl ReferenceError
      else Inr (w\<lparr>focusReadingEnabled := True, focusHandler := True, keyboardHandler := True,
                  listeners := listeners w @ [''focusin'', ''keydown'']\<rparr>))"

definition disableFocusReading :: "world \<Rightarrow> error + world" where
  "disableFocusReading w =
     (if \<not> focusReadingEnabled w then Inr w
      else if (focusHandler w \<or> keyboardHandler w) \<and> \<not> document_defined w
        then Inl ReferenceError
      else
        Inr (stopSpeaking
              (w\<lparr>focusReadingEnabled := False, focusHandler := False, keyboardHandler := False,
                 listeners :=
                   filter (\<lambda>l. \<not> (focusHandler w \<and> l = ''focusin'') \<and>
                               \<not> (keyboardHandler w \<and> l = ''keydown'')) (listeners w)\<rparr>)))"

subsection \<open>enableScreenReaderMode and disableScreenReaderMode\<close>

text \<open>\<open>classList.add\<close> and \<open>classList.remove\<close>.\<close>

definition classList_add :: "nid \<Rightarrow> string \<Rightarrow> world \<Rightarrow> world" where
  "classList_add n c w =
     (if c \<in> set (classes (elems w n)) then w
      else set_className n (classes (elems w n) @ [c]) w)"

definition classList_remove :: "nid \<Rightarrow> string \<Rightarrow> world \<Rightarrow> world" where
  "classList_remove n c w = set_className n (filter (\<lambda>x. x \<noteq> c) (classes (elems w n))) w"

text \<open>
  \<open>enableScreenReaderMode\<close>, for the configuration merged with the defaults. The two
  style sheet texts are the parameters \<open>skip_css\<close> and \<open>focus_css\<close>.
\<close>

definition enableScreenReaderMode ::
    "string \<Rightarrow> string \<Rightarrow> ScreenReaderConfig \<Rightarrow> world \<Rightarrow> error + world" where
  "enableScreenReaderMode skip_css focus_css fullConfig w =
     (if \<not> document_defined w then Inr w
      else case document_body w of
        None \<Rightarrow> Inl TypeError
      | Some body \<Rightarrow>
          (let w1 = setAttribute body ''data-screen-reader'' ''enabled''
                      (classList_add body ''screen-reader-mode'' w)
           in case (if enhancedAria fullConfig then applyEnhancedAria w1 else Inr w1) of
                Inl e \<Rightarrow> Inl e
              | Inr w2 \<Rightarrow>
           (case (if skipLinks fullConfig then createSkipLinks skip_css w2 else Inr w2) of
                Inl e \<Rightarrow> Inl e
              | Inr w3 \<Rightarrow>
           (case (if enhancedFocus fullConfig then applyEnhancedFocus focus_css w3 else Inr w3) of
                Inl e \<Rightarrow> Inl e
              | Inr w4 \<Rightarrow>
           (let w5 = (if landmarkRoles fullConfig then applyLandmarkRoles w4 else w4)
            in case (if liveRegions fullConfig then createGlobalLiveRegion w5 else Inr w5) of
                 Inl e \<Rightarrow> Inl e
               | Inr w6 \<Rightarrow>
           (case (if readOnFocus fullConfig \<and> useSpeechSynthesis w6
                  then enableFocusReading w6 else Inr w6) of
                 Inl e \<Rightarrow> Inl e
               | Inr w7 \<Rightarrow>
                   announceToScreenReader
                     ''Screen reader mode enabled. Enhanced accessibility features are now active.''
                     Polite w7))))))"

text \<open>Putting back one recorded attribute, and all of them in the order of the maps.\<close>

definition restore_attribute :: "nid \<Rightarrow> string \<times> string option \<Rightarrow> world \<Rightarrow> world" where
  "restore_attribute element av w =
     (case av of (attrName, value) \<Rightarrow>
        (case value of None \<Rightarrow> removeAttribute element attrName w
         | Some v \<Rightarrow> setAttribute element attrName v w))"

definition restore_element :: "nid \<times> (string \<times> string option) list \<Rightarrow> world \<Rightarrow> world" where
  "restore_element ea w =
     (case ea of (element, recorded) \<Rightarrow> fold (restore_attribute element) recorded w)"

definition disableScreenReaderMode :: "world \<Rightarrow> error + world" where
  "disableScreenReaderMode w =
     (if \<not> document_defined w then Inr w
      else case document_body w of
        None \<Rightarrow> Inl TypeError
      | Some body \<Rightarrow>
          (let w1 = removeAttribute body ''data-screen-reader''
                      (classList_remove body ''screen-reader-mode'' w);
               w2 = (fold restore_element (originalAttributes w1) w1)\<lparr>originalAttributes := []\<rparr>;
               w3 = (fold remove (createdElements w2) w2)\<lparr>createdElements := []\<rparr>;
               w4 = (case liveRegionElement w3 of None \<Rightarrow> w3
                     | Some r \<Rightarrow> (remove r w3)\<lparr>liveRegionElement := None\<rparr>);
               w5 = (case getElementById w4 ''screen-reader-focus-styles'' of None \<Rightarrow> w4
                     | Some fs \<Rightarrow> remove fs w4)
           in case disableFocusReading w5 of
                Inl e \<Rightarrow> Inl e
              | Inr w6 \<Rightarrow> announceToScreenReader ''Screen reader mode disabled.'' Polite w6))"

text \<open>\<open>isScreenReaderModeEnabled\<close>\<close>

definition isScreenReaderModeEnabled :: "world \<Rightarrow> error + bool" where
  "isScreenReaderModeEnabled w =
     (if \<not> document_defined w then Inr False
      else case document_body w of
             None \<Rightarrow> Inl TypeError
           | Some body \<Rightarrow> Inr (''screen-reader-mode'' \<in> set (classes (elems w body))))"

section \<open>The announcer's switches\<close>

definition setAnnouncerDebugMode :: "bool \<Rightarrow> world \<Rightarrow> world" where
  "setAnnouncerDebugMode enabled w = w\<lparr>debugMode := enabled\<rparr>"

definition setSpeechSynthesis :: "bool \<Rightarrow> world \<Rightarrow> world" where
  "setSpeechSynthesis enabled w = w\<lparr>useSpeechSynthesis := enabled\<rparr>"

text \<open>
  \<open>initializeAnnouncer({debug, speechSynthesis})\<close>; \<open>'speechSynthesis' in window\<close> refers
  to \<open>window\<close>. Loading the voices changes nothing in this model.
\<close>

definition initializeAnnouncer :: "bool \<Rightarrow> bool \<Rightarrow> world \<Rightarrow> error + world" where
  "initializeAnnouncer debug speech w =
     (if \<not> document_defined w then Inr w
      else
        let w1 = (if debug then w\<lparr>debugMode := True\<rparr> else w);
            w2 = (if speech then w1\<lparr>useSpeechSynthesis := True\<rparr> else w1)
        in if speech \<and> \<not> window_defined w2 then Inl ReferenceError
           else case getOrCreateAnnouncerContainer w2 of
                  Inl e \<Rightarrow> Inl e
                | Inr (regions, w3) \<Rightarrow> Inr (requestAnimationFrame ForceLayout w3))"

section \<open>The settings panel\<close>

datatype TextSize =
  TextSize_default | TextSize_small | TextSize_medium | TextSize_large | TextSize_extra_large

datatype LineHeight =
  LineHeight_default | LineHeight_tight | LineHeight_normal | LineHeight_relaxed | LineHeight_loose

datatype LetterSpacing =
  LetterSpacing_default | LetterSpacing_tight | LetterSpacing_normal | LetterSpacing_wide
  | LetterSpacing_extra_wide

datatype WordSpacing =
  WordSpacing_default | WordSpacing_tight | WordSpacing_normal | WordSpacing_wide
  | WordSpacing_extra_wide

datatype ContrastLevel = Contrast_default | Contrast_low | Contrast_high | Contrast_dark

datatype SaturationLevel = Saturation_normal | Saturation_low | Saturation_high

datatype PanelPosition =
  Bottom_right | Bottom_left | Top_right | Top_left | Top_center | Bottom_center

datatype ThemeMode = Theme_light | Theme_dark | Theme_auto

datatype SaveMode = Auto | Manual

text \<open>The string of each value, as it is stored and announced.\<close>

fun TextSize_str :: "TextSize \<Rightarrow> string" where
  "TextSize_str TextSize_default = ''default''"
| "TextSize_str TextSize_small = ''small''"
| "TextSize_str TextSize_medium = ''medium''"
| "TextSize_str TextSize_large = ''large''"
| "TextSize_str TextSize_extra_large = ''extra-large''"

fun LineHeight_str :: "LineHeight \<Rightarrow> string" where
  "LineHeight_str LineHeight_default = ''default''"
| "LineHeight_str LineHeight_tight = ''tight''"
| "LineHeight_str LineHeight_normal = ''normal''"
| "LineHeight_str LineHeight_relaxed = ''relaxed''"
| "LineHeight_str LineHeight_loose = ''loose''"

fun LetterSpacing_str :: "LetterSpacing \<Rightarrow> string" where
  "LetterSpacing_str LetterSpacing_default = ''default''"
| "LetterSpacing_str LetterSpacing_tight = ''tight''"
| "LetterSpacing_str LetterSpacing_normal = ''normal''"
| "LetterSpacing_str LetterSpacing_wide = ''wide''"
| "LetterSpacing_str LetterSpacing_extra_wide = ''extra-wide''"

fun WordSpacing_str :: "WordSpacing \<Rightarrow> string" where
  "WordSpacing_str WordSpacing_default = ''default''"
| "WordSpacing_str WordSpacing_tight = ''tight''"
| "WordSpacing_str WordSpacing_normal = ''normal''"
| "WordSpacing_str WordSpacing_wide = ''wide''"
| "WordSpacing_str WordSpacing_extra_wide = ''extra-wide''"

fun ContrastLevel_str :: "ContrastLevel \<Rightarrow> string" where
  "ContrastLevel_str Contrast_default = ''default''"
| "ContrastLevel_str Contrast_low = ''low''"
| "ContrastLevel_str Contrast_high = ''high''"
| "ContrastLevel_str Contrast_dark = ''dark''"

fun SaturationLevel_str :: "SaturationLevel \<Rightarrow> string" where
  "SaturationLevel_str Saturation_normal = ''normal''"
| "SaturationLevel_str Saturation_low = ''low''"
| "SaturationLevel_str Saturation_high = ''high''"

fun PanelPosition_str :: "PanelPosition \<Rightarrow> string" where
  "PanelPosition_str Bottom_right = ''bottom-right''"
| "PanelPosition_str Bottom_left = ''bottom-left''"
| "PanelPosition_str Top_right = ''top-right''"
| "PanelPosition_str Top_left = ''top-left''"
| "PanelPosition_str Top_center = ''top-center''"
| "PanelPosition_str Bottom_center = ''bottom-center''"

fun ThemeMode_str :: "ThemeMode \<Rightarrow> string" where
  "ThemeMode_str Theme_light = ''light''"
| "ThemeMode_str Theme_dark = ''dark''"
| "ThemeMode_str Theme_auto = ''auto''"

definition bool_str :: "bool \<Rightarrow> string" where
  "bool_str b = (if b then ''true'' else ''false'')"

text \<open>
  The tests of \<open>loadSettings\<close> on a stored string, one comparison per value of the
  type: the value read, or nothing when no comparison holds.
\<close>

definition read_TextSize :: "string \<Rightarrow> TextSize option" where
  "read_TextSize s =
     (if s = ''default'' then Some TextSize_default
      else if s = ''small'' then Some TextSize_small
      else if s = ''medium'' then Some TextSize_medium
      else if s = ''large'' then Some TextSize_large
      else if s = ''extra-large'' then Some TextSize_extra_large else None)"

definition read_LineHeight :: "string \<Rightarrow> LineHeight option" where
  "read_LineHeight s =
     (if s = ''default'' then Some LineHeight_default
      else if s = ''tight'' then Some LineHeight_tight
      else if s = ''normal'' then Some LineHeight_normal
      else if s = ''relaxed'' then Some LineHeight_relaxed
      else if s = ''loose'' then Some LineHeight_loose else None)"

definition read_LetterSpacing :: "string \<Rightarrow> LetterSpacing option" where
  "read_LetterSpacing s =
     (if s = ''default'' then Some LetterSpacing_default
      else if s = ''tight'' then Some LetterSpacing_tight
      else if s = ''normal'' then Some LetterSpacing_normal
      else if s = ''wide'' then Some LetterSpacing_wide
      else if s = ''extra-wide'' then Some LetterSpacing_extra_wide else None)"

definition read_WordSpacing :: "string \<Rightarrow> WordSpacing option" where
  "read_WordSpacing s =
     (if s = ''default'' then Some WordSpacing_default
      else if s = ''tight'' then Some WordSpacing_tight
      else if s = ''normal'' then Some WordSpacing_normal
      else if s = ''wide'' then Some WordSpacing_wide
      else if s = ''extra-wide'' then Some WordSpacing_extra_wide else None)"

definition read_ContrastLevel :: "string \<Rightarrow> ContrastLevel option" where
  "read_ContrastLevel s =
     (if s = ''default'' then Some Contrast_default
      else if s = ''low'' then Some Contrast_low
      else if s = ''high'' then Some Contrast_high
      else if s = ''dark'' then Some Contrast_dark else None)"

definition read_SaturationLevel :: "string \<Rightarrow> SaturationLevel option" where
  "read_SaturationLevel s =
     (if s = ''normal'' then Some Saturation_normal
      else if s = ''low'' then Some Saturation_low
      else if s = ''high'' then Some Saturation_high else None)"

definition read_PanelPosition :: "string \<Rightarrow> PanelPosition option" where
  "read_PanelPosition s =
     (if s = ''bottom-right'' then Some Bottom_right
      else if s = ''bottom-left'' then Some Bottom_left
      else if s = ''top-right'' then Some Top_right
      else if s = ''top-left'' then Some Top_left
      else if s = ''top-center'' then Some Top_center
      else if s = ''bottom-center'' then Some Bottom_center else None)"

definition read_ThemeMode :: "string \<Rightarrow> ThemeMode option" where
  "read_ThemeMode s =
     (if s = ''light'' then Some Theme_light
      else if s = ''dark'' then Some Theme_dark
      else if s = ''auto'' then Some Theme_auto else None)"

text \<open>The callbacks of the panel's own \<open>setTimeout\<close> calls.\<close>

datatype panel_callback =
    LateHideImages
  | LateHighlightTitles
  | LateHighlightLinks
  | LateContrast ContrastLevel
  | LateScreenReader
  | EndInitialLoad
  | ClearLocalAnnouncement

text \<open>
  The component: its props (\<open>saveMode\<close>, \<open>customFonts\<close>, and the texts of the style
  sheets it injects, which are parameters here), its state variables and refs under
  their own names, the element of its local live region, whether its MutationObserver
  is connected, the storage behind the adapter with the keys it accepts a write for,
  its pending timeouts, and the browser it runs in. The callbacks of the host
  (\<open>onSave\<close>, \<open>onPositionChange\<close>, \<open>onThemeChange\<close>) are not modelled.
\<close>

record panel =
  saveMode :: SaveMode
  customFonts :: "string \<rightharpoonup> string"
  contrast_css :: "ContrastLevel \<Rightarrow> string"
  titles_css :: string
  links_css :: string
  skip_link_css :: string
  focus_style_css :: string
  textSize :: TextSize
  lineHeight :: LineHeight
  letterSpacing :: LetterSpacing
  wordSpacing :: WordSpacing
  contrast :: ContrastLevel
  saturation :: SaturationLevel
  screenReader :: bool
  monochrome :: bool
  hideImages :: bool
  highlightTitles :: bool
  highlightLinks :: bool
  fontFamily :: string
  internalPosition :: "PanelPosition option"
  internalTheme :: "ThemeMode option"
  hasUnsavedChanges :: bool
  isSaving :: bool
  shouldApplyEffectsRef :: bool
  isInitialLoadRef :: bool
  imagePlaceholdersRef :: "(nid \<times> nid) list"
  announcementRef :: "nid option"
  observing :: bool
  storage :: "string \<rightharpoonup> string"
  write_ok :: "string \<Rightarrow> bool"
  panel_timers :: "(nat \<times> panel_callback) list"
  page :: world

subsection \<open>Storage\<close>

text \<open>
  \<open>saveToStorage\<close>: a write the adapter refuses rejects the promise and stores nothing.
  \<open>loadFromStorage\<close> reads the stored string or \<open>null\<close>.
\<close>

definition saveToStorage :: "string \<Rightarrow> string \<Rightarrow> panel \<Rightarrow> panel" where
  "saveToStorage key v p = (if write_ok p key then p\<lparr>storage := (storage p)(key \<mapsto> v)\<rparr> else p)"

definition loadFromStorage :: "panel \<Rightarrow> string \<Rightarrow> string option" where
  "loadFromStorage p key = storage p key"

definition conditionalSave :: "string \<Rightarrow> string \<Rightarrow> panel \<Rightarrow> panel" where
  "conditionalSave key v p =
     (if saveMode p = Auto then saveToStorage key v p else p\<lparr>hasUnsavedChanges := True\<rparr>)"

subsection \<open>The style effects\<close>

definition fontMap :: "string \<rightharpoonup> string" where
  "fontMap =
     [''default'' \<mapsto> ''inherit'',
      ''sans-serif'' \<mapsto> ''system-ui, -apple-system, BlinkMacSystemFont, \"Segoe UI\", Roboto, \"Helvetica Neue\", Arial, sans-serif'',
      ''serif'' \<mapsto> ''Georgia, \"Times New Roman\", Times, serif'',
      ''dyslexia-friendly'' \<mapsto> ''\"OpenDyslexic\", \"Open Dyslexic\", \"Comic Sans MS\", \"Trebuchet MS\", \"Verdana\", sans-serif'']"

definition getFontFamilyValue :: "panel \<Rightarrow> string \<Rightarrow> string" where
  "getFontFamilyValue p font =
     (case customFonts p font of
        Some v \<Rightarrow> if v \<noteq> [] then v
                  else (case fontMap font of Some f \<Rightarrow> f | None \<Rightarrow> ''inherit'')
      | None \<Rightarrow> (case fontMap font of Some f \<Rightarrow> f | None \<Rightarrow> ''inherit''))"

fun getFontScaleValue :: "TextSize \<Rightarrow> string" where
  "getFontScaleValue TextSize_default = ''1''"
| "getFontScaleValue TextSize_small = ''0.875''"
| "getFontScaleValue TextSize_medium = ''1''"
| "getFontScaleValue TextSize_large = ''1.25''"
| "getFontScaleValue TextSize_extra_large = ''1.5''"

fun getLineHeightValue :: "LineHeight \<Rightarrow> string" where
  "getLineHeightValue LineHeight_default = ''1''"
| "getLineHeightValue LineHeight_tight = ''0.75''"
| "getLineHeightValue LineHeight_normal = ''1''"
| "getLineHeightValue LineHeight_relaxed = ''1.5''"
| "getLineHeightValue LineHeight_loose = ''2''"

fun getLetterSpacingValue :: "LetterSpacing \<Rightarrow> string" where
  "getLetterSpacingValue LetterSpacing_default = ''1''"
| "getLetterSpacingValue LetterSpacing_tight = ''0.5''"
| "getLetterSpacingValue LetterSpacing_normal = ''1''"
| "getLetterSpacingValue LetterSpacing_wide = ''1.5''"
| "getLetterSpacingValue LetterSpacing_extra_wide = ''2''"

fun getWordSpacingValue :: "WordSpacing \<Rightarrow> string" where
  "getWordSpacingValue WordSpacing_default = ''1''"
| "getWordSpacingValue WordSpacing_tight = ''0.5''"
| "getWordSpacingValue WordSpacing_normal = ''1''"
| "getWordSpacingValue WordSpacing_wide = ''1.5''"
| "getWordSpacingValue WordSpacing_extra_wide = ''2''"

text \<open>
  \<open>document.documentElement.style.setProperty(name, v)\<close>; a TypeError when the document
  has no root element.
\<close>

definition set_root_style :: "string \<Rightarrow> string \<Rightarrow> panel \<Rightarrow> error + panel" where
  "set_root_style name v p =
     (case documentElement (page p) of
        None \<Rightarrow> Inl TypeError
      | Some r \<Rightarrow> Inr (p\<lparr>page := set_style r name v (page p)\<rparr>))"

definition applyFontFamily :: "panel \<Rightarrow> error + panel" where
  "applyFontFamily p =
     (let fontValue = getFontFamilyValue p (fontFamily p)
      in case set_root_style ''--accessibility-font-family'' fontValue p of
           Inl e \<Rightarrow> Inl e
         | Inr p1 \<Rightarrow>
             (case document_body (page p1) of
                None \<Rightarrow> Inl TypeError
              | Some b \<Rightarrow> Inr (p1\<lparr>page := set_style b ''font-family'' fontValue (page p1)\<rparr>)))"

definition applyFontScale :: "panel \<Rightarrow> error + panel" where
  "applyFontScale p = set_root_style ''--font-scale'' (getFontScaleValue (textSize p)) p"

definition applyLineHeight :: "panel \<Rightarrow> error + panel" where
  "applyLineHeight p =
     set_root_style ''--line-height-scale'' (getLineHeightValue (lineHeight p)) p"

definition applyLetterSpacing :: "panel \<Rightarrow> error + panel" where
  "applyLetterSpacing p =
     set_root_style ''--letter-spacing-scale'' (getLetterSpacingValue (letterSpacing p)) p"

definition applyWordSpacing :: "panel \<Rightarrow> error + panel" where
  "applyWordSpacing p =
     set_root_style ''--word-spacing-scale'' (getWordSpacingValue (wordSpacing p)) p"

definition filter_list :: "bool \<Rightarrow> SaturationLevel \<Rightarrow> string list" where
  "filter_list isMonochrome sat =
     (if isMonochrome then [''grayscale(100%)''] else []) @
     (if sat = Saturation_low then [''saturate(0.5)'']
      else if sat = Saturation_high then [''saturate(1.5)''] else [])"

definition applyFilters :: "panel \<Rightarrow> error + panel" where
  "applyFilters p =
     (let filters = filter_list (monochrome p) (saturation p)
      in set_root_style ''filter'' (if filters \<noteq> [] then join '' '' filters else []) p)"

subsection \<open>applyHideImages\<close>

text \<open>\<open>img:not([aria-hidden="true"])\<close>\<close>

definition image_selector :: selector where
  "image_selector = sel_and (sel_tag ''img'') (sel_not (sel_attr ''aria-hidden'' ''true''))"

text \<open>\<open>rect.width || img.width || img.offsetWidth || 200\<close>, and the same for the height.\<close>

definition placeholder_width :: "world \<Rightarrow> nid \<Rightarrow> rat" where
  "placeholder_width w img =
     (let b = layout w img
      in if rect_width b \<noteq> 0 then rect_width b
         else if img_width b \<noteq> 0 then img_width b
         else if offsetWidth b \<noteq> 0 then offsetWidth b else 200)"

definition placeholder_height :: "world \<Rightarrow> nid \<Rightarrow> rat" where
  "placeholder_height w img =
     (let b = layout w img
      in if rect_height b \<noteq> 0 then rect_height b
         else if img_height b \<noteq> 0 then img_height b
         else if offsetHeight b \<noteq> 0 then offsetHeight b else 150)"

definition placeholder_styles :: "string \<Rightarrow> string \<Rightarrow> (string \<times> string) list" where
  "placeholder_styles width height =
     [(''display'', ''inline-flex''),
      (''width'', width @ ''px''),
      (''min-width'', width @ ''px''),
      (''height'', height @ ''px''),
      (''min-height'', height @ ''px''),
      (''background-color'', ''#f1f5f9''),
      (''border'', ''2px dashed #cbd5e1''),
      (''border-radius'', ''8px''),
      (''padding'', ''12px''),
      (''align-items'', ''center''),
      (''justify-content'', ''center''),
      (''text-align'', ''center''),
      (''color'', ''#64748b''),
      (''font-size'', ''14px''),
      (''line-height'', ''1.4''),
      (''word-wrap'', ''break-word''),
      (''box-sizing'', ''border-box''),
      (''vertical-align'', ''top'')]"

text \<open>\<open>Map.prototype.set\<close> and \<open>delete\<close> on an association list in insertion order.\<close>

definition map_set :: "'k \<Rightarrow> 'v \<Rightarrow> ('k \<times> 'v) list \<Rightarrow> ('k \<times> 'v) list" where
  "map_set k v m =
     (if map_of m k = None then m @ [(k, v)]
      else map (\<lambda>(k', v'). if k' = k then (k', v) else (k', v')) m)"

definition map_delete :: "'k \<Rightarrow> ('k \<times> 'v) list \<Rightarrow> ('k \<times> 'v) list" where
  "map_delete k m = filter (\<lambda>(k', v'). k' \<noteq> k) m"

text \<open>The body of the loop of the enabling branch, for one image.\<close>

definition hide_image :: "nid \<Rightarrow> panel \<Rightarrow> panel" where
  "hide_image img p =
     (let w = page p
      in if hasAttribute w img ''data-original-display'' then p
         else
           let w1 = setAttribute img ''data-original-height'' (get_style w img ''height'')
                      (setAttribute img ''data-original-width'' (get_style w img ''width'')
                        (setAttribute img ''data-original-display'' (get_style w img ''display'') w));
               width = placeholder_width w1 img;
               height = placeholder_height w1 img;
               altText = (if attr_or_empty w1 img ''alt'' \<noteq> [] then attr_or_empty w1 img ''alt''
                          else ''Image'');
               w2 = set_style img ''display'' ''none'' w1
           in case createElement ''div'' w2 of
                (placeholder, w3) \<Rightarrow>
                  (let w4 = set_cssText placeholder
                              (placeholder_styles (number_string w3 width) (number_string w3 height))
                              (set_className placeholder [''image-placeholder''] w3)
                   in case createTextNode altText w4 of
                        (t, w5) \<Rightarrow>
                          (let w6 = setAttribute placeholder ''aria-label'' (''Image: '' @ altText) w5;
                               w7 = w6\<lparr>tree := insert_after img (DNode placeholder [DNode t []])
                                                  (tree w6)\<rparr>
                           in p\<lparr>page := w7,
                                imagePlaceholdersRef :=
                                  map_set img placeholder (imagePlaceholdersRef p)\<rparr>)))"

text \<open>The body of the loop of the restoring branch.\<close>

definition show_image :: "nid \<Rightarrow> panel \<Rightarrow> panel" where
  "show_image img p =
     (let w = page p
      in if \<not> hasAttribute w img ''data-original-display'' then p
         else
           let w1 = set_style img ''height'' (attr_or_empty w img ''data-original-height'')
                      (set_style img ''width'' (attr_or_empty w img ''data-original-width'')
                        (set_style img ''display'' (attr_or_empty w img ''data-original-display'') w));
               w2 = (case map_of (imagePlaceholdersRef p) img of
                       None \<Rightarrow> w1
                     | Some placeholder \<Rightarrow> remove placeholder w1);
               w3 = removeAttribute img ''data-original-height''
                      (removeAttribute img ''data-original-width''
                        (removeAttribute img ''data-original-display'' w2))
           in p\<lparr>page := w3, imagePlaceholdersRef := map_delete img (imagePlaceholdersRef p)\<rparr>)"

definition applyHideImages :: "bool \<Rightarrow> panel \<Rightarrow> panel" where
  "applyHideImages enabled p =
     (let images = querySelectorAll image_selector (page p)
      in if enabled then fold hide_image images p else fold show_image images p)"

subsection \<open>applyContrast and the highlight styles\<close>

definition contrast_style_id :: string where
  "contrast_style_id = ''accessibility-contrast-style''"

text \<open>
  \<open>applyContrast(level)\<close>: the style element found by its id is removed; for \<open>default\<close>
  the root loses \<open>data-contrast\<close> and that is all; otherwise a new style element is
  appended to the head, the root gets \<open>data-contrast\<close>, and the element gets the text
  of the level.
\<close>

definition applyContrast :: "ContrastLevel \<Rightarrow> panel \<Rightarrow> error + panel" where
  "applyContrast level p =
     (let w = page p;
          w1 = (case getElementById w contrast_style_id of
                  None \<Rightarrow> w | Some styleElement \<Rightarrow> remove styleElement w)
      in if level = Contrast_default
         then (case documentElement w1 of
                 None \<Rightarrow> Inl TypeError
               | Some r \<Rightarrow> Inr (p\<lparr>page := removeAttribute r ''data-contrast'' w1\<rparr>))
         else
           case createElement ''style'' w1 of
             (styleElement, w2) \<Rightarrow>
               (let w3 = setAttribute styleElement ''id'' contrast_style_id w2
                in case document_head w3 of
                     None \<Rightarrow> Inl TypeError
                   | Some h \<Rightarrow>
                       (let w4 = appendChild h (DNode styleElement []) w3
                        in case documentElement w4 of
                             None \<Rightarrow> Inl TypeError
                           | Some r \<Rightarrow>
                               Inr (p\<lparr>page :=
                                      set_textContent styleElement (contrast_css p level)
                                        (setAttribute r ''data-contrast''
                                           (ContrastLevel_str level) w4)\<rparr>))))"

text \<open>
  What \<open>applyContrast\<close> relies on: a well-formed document with a head, where the id of
  the contrast style is carried by at most one element, a \<open>style\<close> element.
\<close>

definition contrast_ready :: "world \<Rightarrow> bool" where
  "contrast_ready w =
     (wf_world w \<and> document_head w \<noteq> None \<and>
      length (ids_with w contrast_style_id) \<le> 1 \<and>
      list_all (\<lambda>s. tag (elems w s) = ''style'') (ids_with w contrast_style_id))"

text \<open>Calls of \<open>applyContrast\<close> one after the other, with the levels of the list.\<close>

fun applyContrast_seq :: "ContrastLevel list \<Rightarrow> panel \<Rightarrow> error + panel" where
  "applyContrast_seq [] p = Inr p"
| "applyContrast_seq (level # levels) p =
     (case applyContrast level p of Inl e \<Rightarrow> Inl e | Inr p1 \<Rightarrow> applyContrast_seq levels p1)"

text \<open>
  \<open>applyHighlightTitles\<close> and \<open>applyHighlightLinks\<close> differ in the id and in the text.
\<close>

definition apply_highlight :: "string \<Rightarrow> string \<Rightarrow> bool \<Rightarrow> panel \<Rightarrow> error + panel" where
  "apply_highlight styleId css enabled p =
     (let w = page p
      in if enabled
         then (case (case getElementById w styleId of
                       Some st \<Rightarrow> Inr (st, w)
                     | None \<Rightarrow>
                         (case createElement ''style'' w of
                            (st, w1) \<Rightarrow>
                              (let w2 = setAttribute st ''id'' styleId w1
                               in case document_head w2 of
                                    None \<Rightarrow> Inl TypeError
                                  | Some h \<Rightarrow> Inr (st, appendChild h (DNode st []) w2)))) of
                 Inl e \<Rightarrow> Inl e
               | Inr (styleElement, w3) \<Rightarrow> Inr (p\<lparr>page := set_textContent styleElement css w3\<rparr>))
         else (case getElementById w styleId of
                 None \<Rightarrow> Inr p
               | Some st \<Rightarrow> Inr (p\<lparr>page := remove st w\<rparr>)))"

definition applyHighlightTitles :: "bool \<Rightarrow> panel \<Rightarrow> error + panel" where
  "applyHighlightTitles enabled p =
     apply_highlight ''accessibility-highlight-titles-style'' (titles_css p) enabled p"

definition applyHighlightLinks :: "bool \<Rightarrow> panel \<Rightarrow> error + panel" where
  "applyHighlightLinks enabled p =
     apply_highlight ''accessibility-highlight-links-style'' (links_css p) enabled p"

subsection \<open>Announcing a change\<close>

definition then_do :: "error + 'a \<Rightarrow> ('a \<Rightarrow> error + 'b) \<Rightarrow> error + 'b" where
  "then_do r f = (case r of Inl e \<Rightarrow> Inl e | Inr x \<Rightarrow> f x)"

text \<open>
  \<open>announceChange(message)\<close>. It is a callback made at the last render: the value of
  \<open>screenReader\<close> it tests is the one of that render, passed here as \<open>sr\<close>.
\<close>

definition announceChange :: "bool \<Rightarrow> string \<Rightarrow> panel \<Rightarrow> error + panel" where
  "announceChange sr message p =
     (if \<not> sr then Inr p
      else case announceToScreenReader message Polite (page p) of
             Inl e \<Rightarrow> Inl e
           | Inr w1 \<Rightarrow>
               (case announcementRef p of
                  None \<Rightarrow> Inr (p\<lparr>page := w1\<rparr>)
                | Some n \<Rightarrow>
                    Inr (p\<lparr>page := set_textContent n message w1,
                           panel_timers :=
                             panel_timers p @ [(now w1 + 1000, ClearLocalAnnouncement)]\<rparr>)))"

subsection \<open>The effects that follow a render\<close>

text \<open>
  Each \<open>useEffect\<close> runs after a render in which one of its dependencies has changed;
  \<open>old\<close> is the state of the render before. The props do not change. The effects that
  apply a setting test \<open>shouldApplyEffectsRef.current || isInitialLoadRef.current\<close>
  first. The effect on \<open>hideImages\<close> disconnects its observer and connects a new one
  when the setting is on and the test holds (what the observer does on a mutation is
  not modelled).
\<close>

definition effects_allowed :: "panel \<Rightarrow> bool" where
  "effects_allowed p = (shouldApplyEffectsRef p \<or> isInitialLoadRef p)"

definition effect :: "bool \<Rightarrow> (panel \<Rightarrow> error + panel) \<Rightarrow> panel \<Rightarrow> error + panel" where
  "effect changed f p = (if changed \<and> effects_allowed p then f p else Inr p)"

definition observer_effect :: "bool \<Rightarrow> panel \<Rightarrow> panel" where
  "observer_effect changed p =
     (if changed then p\<lparr>observing := (hideImages p \<and> effects_allowed p)\<rparr> else p)"

definition run_effects :: "panel \<Rightarrow> panel \<Rightarrow> error + panel" where
  "run_effects old p =
     then_do (effect (monochrome p \<noteq> monochrome old \<or> saturation p \<noteq> saturation old)
                applyFilters p) (\<lambda>p1.
     then_do (effect (fontFamily p \<noteq> fontFamily old) applyFontFamily p1) (\<lambda>p2.
     then_do (effect (textSize p \<noteq> textSize old) applyFontScale p2) (\<lambda>p3.
     then_do (effect (lineHeight p \<noteq> lineHeight old) applyLineHeight p3) (\<lambda>p4.
     then_do (effect (letterSpacing p \<noteq> letterSpacing old) applyLetterSpacing p4) (\<lambda>p5.
     then_do (effect (wordSpacing p \<noteq> wordSpacing old) applyWordSpacing p5) (\<lambda>p6.
     then_do (effect (contrast p \<noteq> contrast old) (applyContrast (contrast p))
                (observer_effect (hideImages p \<noteq> hideImages old) p6)) (\<lambda>p7.
     then_do (effect (highlightTitles p \<noteq> highlightTitles old)
                (applyHighlightTitles (highlightTitles p)) p7) (\<lambda>p8.
     effect (highlightLinks p \<noteq> highlightLinks old)
       (applyHighlightLinks (highlightLinks p)) p8))))))))"

subsection \<open>The handlers of the controls\<close>

text \<open>
  A handler sets state, stores or marks the change, announces it, and the render that
  follows runs the effects. \<open>p\<close> is the state of the render the handler belongs to.
\<close>

definition handleTextSizeChange :: "TextSize \<Rightarrow> panel \<Rightarrow> error + panel" where
  "handleTextSizeChange newSize p =
     then_do (announceChange (screenReader p) (''Text size changed to '' @ TextSize_str newSize)
                (conditionalSave ''accessibility-text-size'' (TextSize_str newSize)
                   (p\<lparr>textSize := newSize\<rparr>)))
             (run_effects p)"

definition handleLineHeightChange :: "LineHeight \<Rightarrow> panel \<Rightarrow> error + panel" where
  "handleLineHeightChange level p =
     then_do (announceChange (screenReader p) (''Line height changed to '' @ LineHeight_str level)
                (conditionalSave ''accessibility-line-height'' (LineHeight_str level)
                   (p\<lparr>lineHeight := level\<rparr>)))
             (run_effects p)"

definition handleLetterSpacingChange :: "LetterSpacing \<Rightarrow> panel \<Rightarrow> error + panel" where
  "handleLetterSpacingChange level p =
     then_do (announceChange (screenReader p)
                (''Letter spacing changed to '' @
                   (if level = LetterSpacing_extra_wide then ''extra wide''
                    else LetterSpacing_str level))
                (conditionalSave ''accessibility-letter-spacing'' (LetterSpacing_str level)
                   (p\<lparr>letterSpacing := level\<rparr>)))
             (run_effects p)"

definition handleWordSpacingChange :: "WordSpacing \<Rightarrow> panel \<Rightarrow> error + panel" where
  "handleWordSpacingChange level p =
     then_do (announceChange (screenReader p)
                (''Word spacing changed to '' @
                   (if level = WordSpacing_extra_wide then ''extra wide''
                    else WordSpacing_str level))
                (conditionalSave ''accessibility-word-spacing'' (WordSpacing_str level)
                   (p\<lparr>wordSpacing := level\<rparr>)))
             (run_effects p)"

fun levelLabels :: "ContrastLevel \<Rightarrow> string" where
  "levelLabels Contrast_default = ''Default''"
| "levelLabels Contrast_low = ''Low Contrast''"
| "levelLabels Contrast_high = ''High Contrast''"
| "levelLabels Contrast_dark = ''Dark Mode''"

definition handleContrastChange :: "ContrastLevel \<Rightarrow> panel \<Rightarrow> error + panel" where
  "handleContrastChange level p =
     then_do (if saveMode p = Auto then applyContrast level (p\<lparr>contrast := level\<rparr>)
              else Inr (p\<lparr>contrast := level, hasUnsavedChanges := True\<rparr>)) (\<lambda>p1.
     then_do (announceChange (screenReader p) (''Contrast changed to '' @ levelLabels level)
                (conditionalSave ''accessibility-contrast'' (ContrastLevel_str level) p1))
             (run_effects p))"

definition handleSaturationChange :: "SaturationLevel \<Rightarrow> panel \<Rightarrow> error + panel" where
  "handleSaturationChange level p =
     then_do (announceChange (screenReader p)
                (''Saturation changed to '' @ SaturationLevel_str level)
                (conditionalSave ''accessibility-saturation'' (SaturationLevel_str level)
                   (p\<lparr>saturation := level\<rparr>)))
             (run_effects p)"

text \<open>
  The options \<open>handleScreenReaderChange\<close>, \<open>loadSettings\<close> and \<open>handleSaveSettings\<close> pass
  to \<open>enableScreenReaderMode\<close>, merged with the defaults.
\<close>

definition panel_config :: ScreenReaderConfig where
  "panel_config = defaultScreenReaderConfig"

definition enable_mode :: "panel \<Rightarrow> error + panel" where
  "enable_mode p =
     (case enableScreenReaderMode (skip_link_css p) (focus_style_css p) panel_config (page p) of
        Inl e \<Rightarrow> Inl e | Inr w \<Rightarrow> Inr (p\<lparr>page := w\<rparr>))"

definition disable_mode :: "panel \<Rightarrow> error + panel" where
  "disable_mode p =
     (case disableScreenReaderMode (page p) of
        Inl e \<Rightarrow> Inl e | Inr w \<Rightarrow> Inr (p\<lparr>page := w\<rparr>))"

definition handleScreenReaderChange :: "bool \<Rightarrow> panel \<Rightarrow> error + panel" where
  "handleScreenReaderChange checked p =
     (let p1 = p\<lparr>screenReader := checked\<rparr>;
          p2 = (if \<not> checked then p1\<lparr>page := stopSpeaking (page p1)\<rparr> else p1);
          p3 = p2\<lparr>page := setSpeechSynthesis checked (page p2)\<rparr>
      in then_do (if saveMode p = Auto
                  then (if checked then enable_mode p3 else disable_mode p3)
                  else Inr (p3\<lparr>hasUnsavedChanges := True\<rparr>)) (\<lambda>p4.
         then_do (let p5 = conditionalSave ''accessibility-screen-reader'' (bool_str checked) p4
                  in if checked
                     then announceChange (screenReader p)
                            ''Screen reader mode enabled. Enhanced accessibility features are now active.''
                            p5
                     else Inr p5)
                 (run_effects p)))"

definition handleMonochromeChange :: "bool \<Rightarrow> panel \<Rightarrow> error + panel" where
  "handleMonochromeChange checked p =
     then_do (announceChange (screenReader p)
                (''Monochrome mode '' @ (if checked then ''enabled'' else ''disabled''))
                (conditionalSave ''accessibility-monochrome'' (bool_str checked)
                   (p\<lparr>monochrome := checked\<rparr>)))
             (run_effects p)"

definition handleHideImagesChange :: "bool \<Rightarrow> panel \<Rightarrow> error + panel" where
  "handleHideImagesChange checked p =
     (let p1 = (if saveMode p = Auto then applyHideImages checked (p\<lparr>hideImages := checked\<rparr>)
                else p\<lparr>hideImages := checked, hasUnsavedChanges := True\<rparr>)
      in then_do (announceChange (screenReader p)
                    (''Hide images '' @ (if checked then ''enabled'' else ''disabled''))
                    (conditionalSave ''accessibility-hide-images'' (bool_str checked) p1))
                 (run_effects p))"

definition handleHighlightTitlesChange :: "bool \<Rightarrow> panel \<Rightarrow> error + panel" where
  "handleHighlightTitlesChange checked p =
     then_do (if saveMode p = Auto
              then applyHighlightTitles checked (p\<lparr>highlightTitles := checked\<rparr>)
              else Inr (p\<lparr>highlightTitles := checked, hasUnsavedChanges := True\<rparr>)) (\<lambda>p1.
     then_do (announceChange (screenReader p)
                (''Highlight titles '' @ (if checked then ''enabled'' else ''disabled''))
                (conditionalSave ''accessibility-highlight-titles'' (bool_str checked) p1))
             (run_effects p))"

definition handleHighlightLinksChange :: "bool \<Rightarrow> panel \<Rightarrow> error + panel" where
  "handleHighlightLinksChange checked p =
     then_do (if saveMode p = Auto
              then applyHighlightLinks checked (p\<lparr>highlightLinks := checked\<rparr>)
              else Inr (p\<lparr>highlightLinks := checked, hasUnsavedChanges := True\<rparr>)) (\<lambda>p1.
     then_do (announceChange (screenReader p)
                (''Highlight links '' @ (if checked then ''enabled'' else ''disabled''))
                (conditionalSave ''accessibility-highlight-links'' (bool_str checked) p1))
             (run_effects p))"

definition handleFontFamilyChange :: "string \<Rightarrow> panel \<Rightarrow> error + panel" where
  "handleFontFamilyChange newFontFamily p =
     then_do (announceChange (screenReader p)
                (''Font family changed to '' @
                   (if newFontFamily = ''dyslexia-friendly'' then ''dyslexia friendly''
                    else newFontFamily))
                (conditionalSave ''accessibility-font-family'' newFontFamily
                   (p\<lparr>fontFamily := newFontFamily\<rparr>)))
             (run_effects p)"

subsection \<open>handleSaveSettings\<close>

text \<open>
  The keys and values of the batch of writes. All writes are started; the batch fails
  when the adapter refuses one of them.
\<close>

definition settings_to_save :: "panel \<Rightarrow> (string \<times> string) list" where
  "settings_to_save p =
     [(''accessibility-text-size'', TextSize_str (textSize p)),
      (''accessibility-line-height'', LineHeight_str (lineHeight p)),
      (''accessibility-letter-spacing'', LetterSpacing_str (letterSpacing p)),
      (''accessibility-word-spacing'', WordSpacing_str (wordSpacing p)),
      (''accessibility-contrast'', ContrastLevel_str (contrast p)),
      (''accessibility-saturation'', SaturationLevel_str (saturation p)),
      (''accessibility-monochrome'', bool_str (monochrome p)),
      (''accessibility-hide-images'', bool_str (hideImages p)),
      (''accessibility-highlight-titles'', bool_str (highlightTitles p)),
      (''accessibility-highlight-links'', bool_str (highlightLinks p)),
      (''accessibility-font-family'', fontFamily p),
      (''accessibility-screen-reader'', bool_str (screenReader p))] @
     (case internalPosition p of None \<Rightarrow> []
      | Some pos \<Rightarrow> [(''accessibility-position'', PanelPosition_str pos)]) @
     (case internalTheme p of None \<Rightarrow> []
      | Some th \<Rightarrow> [(''accessibility-theme'', ThemeMode_str th)])"

text \<open>The visual effects of the save action, in the order of the source.\<close>

definition apply_all_effects :: "panel \<Rightarrow> error + panel" where
  "apply_all_effects p =
     then_do (applyFontFamily p) (\<lambda>p1.
     then_do (applyFontScale p1) (\<lambda>p2.
     then_do (applyLineHeight p2) (\<lambda>p3.
     then_do (applyLetterSpacing p3) (\<lambda>p4.
     then_do (applyWordSpacing p4) (\<lambda>p5.
     then_do (applyFilters p5) (\<lambda>p6.
     then_do (applyHighlightTitles (highlightTitles p) (applyHideImages (hideImages p) p6)) (\<lambda>p7.
     then_do (applyHighlightLinks (highlightLinks p) p7) (\<lambda>p8.
     then_do (applyContrast (contrast p) p8) (\<lambda>p9.
       let p10 = p9\<lparr>page := setSpeechSynthesis (screenReader p) (page p9)\<rparr>
       in if screenReader p then enable_mode p10 else disable_mode p10)))))))))"

text \<open>
  \<open>handleSaveSettings\<close>. An exception of the effects leaves the \<open>try\<close> block before
  anything is stored; the model gives it as the result (the \<open>catch\<close> branch logs and
  announces the failure). When a write is refused the \<open>catch\<close> branch runs after the
  other writes.
\<close>

definition handleSaveSettings :: "panel \<Rightarrow> error + panel" where
  "handleSaveSettings p =
     then_do (apply_all_effects (p\<lparr>isSaving := True\<rparr>)) (\<lambda>p1.
       let p2 = fold (\<lambda>(k, v). saveToStorage k v) (settings_to_save p) p1
       in if list_all (\<lambda>(k, v). write_ok p k) (settings_to_save p)
          then then_do (announceChange (screenReader p) ''Settings saved''
                          (p2\<lparr>hasUnsavedChanges := False\<rparr>))
                 (\<lambda>p3. Inr (p3\<lparr>isSaving := False\<rparr>))
          else then_do (announceChange (screenReader p)
                          ''Failed to save settings. Please try again.''
                          (p2\<lparr>page := (page p2)\<lparr>console := console (page p2) @
                                   [''Failed to save accessibility settings:'']\<rparr>\<rparr>))
                 (\<lambda>p3. Inr (p3\<lparr>isSaving := False\<rparr>)))"

subsection \<open>loadSettings\<close>

text \<open>
  A panel timeout is set relative to the browser's clock. The steps of \<open>loadSettings\<close>
  follow; each reads one key and leaves the state alone when the key is absent or, for
  the settings that are tested, when no test holds.
\<close>

definition panel_setTimeout :: "panel_callback \<Rightarrow> nat \<Rightarrow> panel \<Rightarrow> panel" where
  "panel_setTimeout cb ms p = p\<lparr>panel_timers := panel_timers p @ [(now (page p) + ms, cb)]\<rparr>"

definition load_monochrome :: "panel \<Rightarrow> panel" where
  "load_monochrome p =
     (case loadFromStorage p ''accessibility-monochrome'' of
        None \<Rightarrow> p | Some saved \<Rightarrow> p\<lparr>monochrome := (saved = ''true'')\<rparr>)"

definition load_saturation :: "panel \<Rightarrow> panel" where
  "load_saturation p =
     (case loadFromStorage p ''accessibility-saturation'' of
        None \<Rightarrow> p
      | Some saved \<Rightarrow> (case read_SaturationLevel saved of
                         None \<Rightarrow> p | Some v \<Rightarrow> p\<lparr>saturation := v\<rparr>))"

definition load_hide_images :: "panel \<Rightarrow> panel" where
  "load_hide_images p =
     (case loadFromStorage p ''accessibility-hide-images'' of
        None \<Rightarrow> p
      | Some saved \<Rightarrow>
          (let p1 = p\<lparr>hideImages := (saved = ''true'')\<rparr>
           in if saved = ''true'' then panel_setTimeout LateHideImages 100 p1 else p1))"

definition load_highlight_titles :: "panel \<Rightarrow> panel" where
  "load_highlight_titles p =
     (case loadFromStorage p ''accessibility-highlight-titles'' of
        None \<Rightarrow> p
      | Some saved \<Rightarrow>
          (let p1 = p\<lparr>highlightTitles := (saved = ''true'')\<rparr>
           in if saved = ''true'' then panel_setTimeout LateHighlightTitles 100 p1 else p1))"

definition load_highlight_links :: "panel \<Rightarrow> panel" where
  "load_highlight_links p =
     (case loadFromStorage p ''accessibility-highlight-links'' of
        None \<Rightarrow> p
      | Some saved \<Rightarrow>
          (let p1 = p\<lparr>highlightLinks := (saved = ''true'')\<rparr>
           in if saved = ''true'' then panel_setTimeout LateHighlightLinks 100 p1 else p1))"

definition load_contrast :: "panel \<Rightarrow> panel" where
  "load_contrast p =
     (case loadFromStorage p ''accessibility-contrast'' of
        None \<Rightarrow> p
      | Some saved \<Rightarrow>
          (case read_ContrastLevel saved of
             None \<Rightarrow> p
           | Some contrastLevel \<Rightarrow>
               (let p1 = p\<lparr>contrast := contrastLevel\<rparr>
                in if contrastLevel \<noteq> Contrast_default
                   then panel_setTimeout (LateContrast contrastLevel) 100 p1 else p1)))"

definition load_position :: "panel \<Rightarrow> panel" where
  "load_position p =
     (case loadFromStorage p ''accessibility-position'' of
        None \<Rightarrow> p
      | Some saved \<Rightarrow> (case read_PanelPosition saved of
                         None \<Rightarrow> p | Some v \<Rightarrow> p\<lparr>internalPosition := Some v\<rparr>))"

definition load_theme :: "panel \<Rightarrow> panel" where
  "load_theme p =
     (case loadFromStorage p ''accessibility-theme'' of
        None \<Rightarrow> p
      | Some saved \<Rightarrow> (case read_ThemeMode saved of
                         None \<Rightarrow> p | Some v \<Rightarrow> p\<lparr>internalTheme := Some v\<rparr>))"

definition load_font_family :: "panel \<Rightarrow> panel" where
  "load_font_family p =
     (case loadFromStorage p ''accessibility-font-family'' of
        None \<Rightarrow> p | Some saved \<Rightarrow> p\<lparr>fontFamily := saved\<rparr>)"

definition load_text_size :: "panel \<Rightarrow> panel" where
  "load_text_size p =
     (case loadFromStorage p ''accessibility-text-size'' of
        None \<Rightarrow> p
      | Some saved \<Rightarrow> (case read_TextSize saved of
                         None \<Rightarrow> p | Some v \<Rightarrow> p\<lparr>textSize := v\<rparr>))"

definition load_line_height :: "panel \<Rightarrow> panel" where
  "load_line_height p =
     (case loadFromStorage p ''accessibility-line-height'' of
        None \<Rightarrow> p
      | Some saved \<Rightarrow> (case read_LineHeight saved of
                         None \<Rightarrow> p | Some v \<Rightarrow> p\<lparr>lineHeight := v\<rparr>))"

definition load_letter_spacing :: "panel \<Rightarrow> panel" where
  "load_letter_spacing p =
     (case loadFromStorage p ''accessibility-letter-spacing'' of
        None \<Rightarrow> p
      | Some saved \<Rightarrow> (case read_LetterSpacing saved of
                         None \<Rightarrow> p | Some v \<Rightarrow> p\<lparr>letterSpacing := v\<rparr>))"

definition load_word_spacing :: "panel \<Rightarrow> panel" where
  "load_word_spacing p =
     (case loadFromStorage p ''accessibility-word-spacing'' of
        None \<Rightarrow> p
      | Some saved \<Rightarrow> (case read_WordSpacing saved of
                         None \<Rightarrow> p | Some v \<Rightarrow> p\<lparr>wordSpacing := v\<rparr>))"

definition load_screen_reader :: "panel \<Rightarrow> panel" where
  "load_screen_reader p =
     (case loadFromStorage p ''accessibility-screen-reader'' of
        None \<Rightarrow> p
      | Some saved \<Rightarrow>
          (let p1 = p\<lparr>screenReader := (saved = ''true''),
                      page := setSpeechSynthesis (saved = ''true'') (page p)\<rparr>
           in if saved = ''true'' then panel_setTimeout LateScreenReader 100 p1 else p1))"

definition loadSettings :: "panel \<Rightarrow> panel" where
  "loadSettings p =
     panel_setTimeout EndInitialLoad 200
       (load_screen_reader (load_word_spacing (load_letter_spacing (load_line_height
         (load_text_size (load_font_family (load_theme (load_position (load_contrast
           (load_highlight_links (load_highlight_titles (load_hide_images
             (load_saturation (load_monochrome p))))))))))))))"

text \<open>The render after the loaded values have been set.\<close>

definition load_and_render :: "panel \<Rightarrow> error + panel" where
  "load_and_render p = run_effects p (loadSettings p)"

text \<open>The bodies of the panel's timeouts.\<close>

fun run_panel_callback :: "panel_callback \<Rightarrow> panel \<Rightarrow> error + panel" where
  "run_panel_callback LateHideImages p = Inr (applyHideImages True p)"
| "run_panel_callback LateHighlightTitles p = applyHighlightTitles True p"
| "run_panel_callback LateHighlightLinks p = applyHighlightLinks True p"
| "run_panel_callback (LateContrast level) p = applyContrast level p"
| "run_panel_callback LateScreenReader p = enable_mode p"
| "run_panel_callback EndInitialLoad p =
     Inr (p\<lparr>isInitialLoadRef := False, shouldApplyEffectsRef := (saveMode p = Auto)\<rparr>)"
| "run_panel_callback ClearLocalAnnouncement p =
     (case announcementRef p of None \<Rightarrow> Inr p
      | Some n \<Rightarrow> Inr (p\<lparr>page := set_textContent n [] (page p)\<rparr>))"

section \<open>Reading aloud\<close>

text \<open>
  \<open>readMainContent\<close> uses \<open>document\<close> with no \<open>typeof\<close> test before it: where the global
  does not exist the reference throws a ReferenceError.
\<close>

definition readMainContent :: "world \<Rightarrow> error + world" where
  "readMainContent w =
     (if \<not> document_defined w then Inl ReferenceError
      else
        let fallback = speakMessage ''No main content found on this page'' Polite w
        in case querySelector main_selector w of
             None \<Rightarrow> Inr fallback
           | Some m \<Rightarrow>
               (let txt = trim (textContent w m)
                in if txt \<noteq> [] then Inr (speakMessage (take 1000 txt) Polite w)
                   else Inr fallback))"

section \<open>The accessible name\<close>

text \<open>
  \<open>getAccessibleName\<close>. The globals \<open>document\<close>, \<open>HTMLInputElement\<close>,
  \<open>HTMLSelectElement\<close>, \<open>HTMLTextAreaElement\<close> and \<open>HTMLImageElement\<close> exist together;
  a reference to one of them where they do not exist throws a ReferenceError.
\<close>

definition getAccessibleName :: "nid \<Rightarrow> world \<Rightarrow> error + string" where
  "getAccessibleName element w =
     (let labelledBy = attr_or_empty w element ''aria-labelledby'';
          labelElements = labelledby_elements w labelledBy;
          ariaLabel = attr_or_empty w element ''aria-label'';
          title = attr_or_empty w element ''title''
      in
        if labelledBy \<noteq> [] \<and> \<not> document_defined w then Inl ReferenceError
        else if labelledBy \<noteq> [] \<and> labelElements \<noteq> []
          then Inr (join '' '' (map (\<lambda>el. trim (textContent w el)) labelElements))
        else if ariaLabel \<noteq> [] then Inr ariaLabel
        else if \<not> document_defined w then Inl ReferenceError
        else
          case (if is_form_control w element \<and> elem_id w element \<noteq> []
                then label_for (elem_id w element) w else Inr None) of
            Inl e \<Rightarrow> Inl e
          | Inr (Some label) \<Rightarrow> Inr (trim (textContent w label))
          | Inr None \<Rightarrow>
              if title \<noteq> [] then Inr title
              else if tag (elems w element) = ''img''
                then Inr (if attr_or_empty w element ''alt'' \<noteq> []
                          then attr_or_empty w element ''alt'' else ''Image'')
              else Inr (trim (textContent w element)))"

text \<open>
  The computation as the specification words it: the candidates in their order, the
  first non-empty one is the name, the empty string when there is none.
\<close>

definition labelledby_text :: "world \<Rightarrow> nid \<Rightarrow> string" where
  "labelledby_text w n =
     join '' '' (map (\<lambda>el. trim (textContent w el))
                    (labelledby_elements w (attr_or_empty w n ''aria-labelledby'')))"

definition associated_label :: "world \<Rightarrow> nid \<Rightarrow> nid option" where
  "associated_label w n =
     (if is_form_control w n \<and> elem_id w n \<noteq> []
      then querySelector (sel_and (sel_tag ''label'') (sel_attr ''for'' (elem_id w n))) w
      else None)"

definition associated_label_text :: "world \<Rightarrow> nid \<Rightarrow> string" where
  "associated_label_text w n =
     (case associated_label w n of None \<Rightarrow> [] | Some l \<Rightarrow> trim (textContent w l))"

definition name_candidates :: "world \<Rightarrow> nid \<Rightarrow> string list" where
  "name_candidates w n =
     [labelledby_text w n,
      attr_or_empty w n ''aria-label'',
      associated_label_text w n,
      attr_or_empty w n ''title'',
      (if tag (elems w n) = ''img'' then attr_or_empty w n ''alt'' else []),
      trim (textContent w n)]"

definition spec_accessible_name :: "world \<Rightarrow> nid \<Rightarrow> string" where
  "spec_accessible_name w n =
     (case filter (\<lambda>c. c \<noteq> []) (name_candidates w n) of [] \<Rightarrow> [] | c # _ \<Rightarrow> c)"

section \<open>Fixtures\<close>

text \<open>
  A browser showing the document of shape \<open>t\<close> with the node data \<open>es\<close>: nothing
  scheduled, the module variables at their initial values, one local English voice,
  nothing measured (every box is 0 by 0), whole numbers printed in decimal. The first
  fixture is a page with an empty \<open>head\<close> and an empty \<open>body\<close>.
\<close>

definition page_elems :: "(nid \<times> elem) list \<Rightarrow> nid \<Rightarrow> elem" where
  "page_elems es n = (case map_of es n of Some e \<Rightarrow> e | None \<Rightarrow> new_elem [])"

definition browser :: "dtree \<Rightarrow> (nid \<times> elem) list \<Rightarrow> nid \<Rightarrow> world" where
  "browser t es k =
     \<lparr>document_defined = True, window_defined = True, navigator_defined = True,
      speech_supported = True, tree = t, elems = page_elems es, next_id = k,
      originalAttributes = [], createdElements = [], liveRegionElement = None,
      debugMode = False, useSpeechSynthesis = False, focusReadingEnabled = False,
      focusHandler = False, keyboardHandler = False, listeners = [],
      activeElement = None, raf_queue = [], timers = [], now = 0,
      voices = [\<lparr>lang = ''en-US'', localService = True\<rparr>], speech_queue = [],
      console = [], random_suffix = (\<lambda>k. ''r''), random_used = 0,
      layout = (\<lambda>n. \<lparr>rect_width = 0, rect_height = 0, img_width = 0, img_height = 0,
                       offsetWidth = 0, offsetHeight = 0\<rparr>),
      number_string = (\<lambda>r. show_nat (nat \<lfloor>r\<rfloor>))\<rparr>"

definition empty_page :: world where
  "empty_page =
     browser (DNode 0 [DNode 1 [DNode 2 [], DNode 3 []]])
       [(0, new_elem ''#document''), (1, new_elem ''html''), (2, new_elem ''head''),
        (3, new_elem ''body'')] 4"

text \<open>
  A page whose body holds an empty \<open>span id="lbl"\<close>, a
  \<open>button aria-labelledby="lbl" aria-label="Close"\<close> with the text \<open>x\<close>, an \<open>img\<close> with
  no attribute, and an \<open>input id="q" title="Query"\<close> with its \<open>label for="q"\<close> reading
  \<open>Search\<close>.
\<close>

definition name_page :: world where
  "name_page =
     browser
       (DNode 0 [DNode 1 [DNode 2 [],
          DNode 3 [DNode 4 [], DNode 5 [DNode 6 []], DNode 7 [], DNode 8 [],
                   DNode 9 [DNode 10 []]]]])
       [(0, new_elem ''#document''), (1, new_elem ''html''), (2, new_elem ''head''),
        (3, new_elem ''body''),
        (4, (new_elem ''span'')\<lparr>attrs := [''id'' \<mapsto> ''lbl'']\<rparr>),
        (5, (new_elem ''button'')\<lparr>attrs := [''aria-labelledby'' \<mapsto> ''lbl'',
                                               ''aria-label'' \<mapsto> ''Close'']\<rparr>),
        (6, new_text ''x''),
        (7, new_elem ''img''),
        (8, (new_elem ''input'')\<lparr>attrs := [''id'' \<mapsto> ''q'', ''title'' \<mapsto> ''Query'']\<rparr>),
        (9, (new_elem ''label'')\<lparr>attrs := [''for'' \<mapsto> ''q'']\<rparr>),
        (10, new_text '' Search '')] 11"

text \<open>
  The panel as it is mounted in the browser \<open>w\<close>, with the save mode \<open>m\<close> and the storage
  \<open>st\<close>: every setting at its default, no custom font, an adapter that accepts every
  write, and short stand-ins for the texts of the style sheets.
\<close>

definition mounted_panel :: "SaveMode \<Rightarrow> (string \<rightharpoonup> string) \<Rightarrow> world \<Rightarrow> panel" where
  "mounted_panel m st w =
     \<lparr>saveMode = m, customFonts = Map.empty, contrast_css = ContrastLevel_str,
      titles_css = ''titles'', links_css = ''links'', skip_link_css = ''skip'',
      focus_style_css = ''focus'',
      textSize = TextSize_default, lineHeight = LineHeight_default,
      letterSpacing = LetterSpacing_default, wordSpacing = WordSpacing_default,
      contrast = Contrast_default, saturation = Saturation_normal, screenReader = False,
      monochrome = False, hideImages = False, highlightTitles = False, highlightLinks = False,
      fontFamily = ''default'', internalPosition = None, internalTheme = None,
      hasUnsavedChanges = False, isSaving = False, shouldApplyEffectsRef = (m = Auto),
      isInitialLoadRef = True, imagePlaceholdersRef = [], announcementRef = None,
      observing = False, storage = st, write_ok = (\<lambda>k. True), panel_timers = [], page = w\<rparr>"

section \<open>Lemmas about lists and trees\<close>

lemma find_filter_hd: "find P xs = (case filter P xs of [] \<Rightarrow> None | x # _ \<Rightarrow> Some x)"
  by (induction xs) auto

lemma find_map_root: "(\<And>c. P (root_id (g c)) = P (root_id c)) \<Longrightarrow>
   find (\<lambda>c. P (root_id c)) (map g cs) = map_option g (find (\<lambda>c. P (root_id c)) cs)"
  by (induction cs) auto

lemma filter_singleton:
  assumes "distinct xs" and "a \<in> set xs" and "Q a" and "\<forall>x\<in>set xs. Q x \<longrightarrow> x = a"
  shows "filter Q xs = [a]"
proof -
  obtain ys zs where xs: "xs = ys @ a # zs" using split_list[OF assms(2)] by blast
  from assms(1) have n: "a \<notin> set ys \<and> a \<notin> set zs" unfolding xs by simp
  from assms(4) n have "\<forall>x\<in>set ys. \<not> Q x" unfolding xs by auto
  moreover from assms(4) n have "\<forall>x\<in>set zs. \<not> Q x" unfolding xs by auto
  ultimately have "filter Q ys = [] \<and> filter Q zs = []" by (simp add: filter_empty_conv)
  then show ?thesis using assms(3) unfolding xs by simp
qed

lemma root_id_map_children [simp]: "root_id (map_children p f t) = root_id t"
  by (cases t) simp

lemma root_id_remove_node [simp]: "root_id (remove_node n t) = root_id t"
  by (cases t) simp

lemma root_in_nids [simp]: "root_id t \<in> set (nids t)"
  by (cases t) simp

lemma map_children_absent: "p \<notin> set (nids t) \<Longrightarrow> map_children p f t = t"
  by (induction t) (auto simp: map_idI)

lemma remove_node_absent: "n \<notin> set (nids t) \<Longrightarrow> remove_node n t = t"
proof (induction t)
  case (DNode m cs)
  have "\<forall>c\<in>set cs. root_id c \<noteq> n"
  proof
    fix c assume "c \<in> set cs"
    with DNode.prems have "n \<notin> set (nids c)" by auto
    then show "root_id c \<noteq> n" using root_in_nids[of c] by metis
  qed
  then have "filter (\<lambda>c. root_id c \<noteq> n) cs = cs" by (simp add: filter_id_conv)
  moreover have "map (remove_node n) cs = cs"
    using DNode by (auto simp: map_idI)
  ultimately show ?case by simp
qed

lemma nids_remove_subset: "set (nids (remove_node n t)) \<subseteq> set (nids t)"
  by (induction t) auto

lemma nids_remove_notin: "n \<noteq> root_id t \<Longrightarrow> n \<notin> set (nids (remove_node n t))"
  by (induction t) auto

lemma filter_nids_remove_empty:
  "filter Q (nids t) = [] \<Longrightarrow> filter Q (nids (remove_node n t)) = []"
  using nids_remove_subset[of n t] by (auto simp: filter_empty_conv)

lemma remove_node_rm: "remove_node n (DNode m cs) = DNode m (rm_kids n cs)"
  by (simp add: rm_kids_def)

lemma rm_kids_append: "rm_kids n (xs @ ys) = rm_kids n xs @ rm_kids n ys"
  by (simp add: rm_kids_def)

lemma rm_kids_Cons: "rm_kids n (c # cs) = (if root_id c = n then rm_kids n cs else remove_node n c # rm_kids n cs)"
  by (simp add: rm_kids_def)

lemma rm_kids_Nil [simp]: "rm_kids n [] = []"
  by (simp add: rm_kids_def)

lemma rm_kids_absent: "n \<notin> set (concat (map nids cs)) \<Longrightarrow> rm_kids n cs = cs"
proof (induction cs)
  case Nil then show ?case by simp
next
  case (Cons c cs)
  then have "n \<notin> set (nids c)" by simp
  then have "root_id c \<noteq> n" "remove_node n c = c"
    using root_in_nids[of c] remove_node_absent by metis+
  then show ?case using Cons by (simp add: rm_kids_Cons)
qed

lemma map_children_ident: "map_children p (\<lambda>cs. cs) t = t"
  by (induction t) (simp add: map_idI)

lemma remove_map_children:
  assumes "\<And>cs. rm_kids n (f cs) = g (rm_kids n cs)"
  shows "remove_node n (map_children p f t) = map_children p g (remove_node n t)"
proof (induction t)
  case (DNode m cs)
  show ?case
  proof (cases "m = p")
    case True
    then show ?thesis using assms by (simp add: rm_kids_def)
  next
    case False
    have "map (remove_node n) (filter (\<lambda>c. root_id c \<noteq> n) (map (map_children p f) cs))
          = map (map_children p g) (map (remove_node n) (filter (\<lambda>c. root_id c \<noteq> n) cs))"
      using DNode.IH by (induction cs) auto
    then show ?thesis using False by simp
  qed
qed

lemma filter_nids_map_children:
  assumes "\<And>cs. filter Q (concat (map nids (f cs))) = filter Q (concat (map nids cs))"
  shows "filter Q (nids (map_children p f t)) = filter Q (nids t)"
proof (induction t)
  case (DNode m cs)
  show ?case
  proof (cases "m = p")
    case True then show ?thesis using assms by simp
  next
    case False
    have "filter Q (concat (map nids (map (map_children p f) cs))) = filter Q (concat (map nids cs))"
      using DNode.IH by (induction cs) auto
    then show ?thesis using False by simp
  qed
qed

lemma set_nids_map_children:
  assumes "\<And>cs. set (concat (map nids (f cs))) = set (concat (map nids cs)) \<union> N"
      and "p \<in> set (nids t)"
  shows "set (nids (map_children p f t)) = set (nids t) \<union> N"
  using assms(2)
proof (induction t)
  case (DNode m cs)
  show ?case
  proof (cases "m = p")
    case True then show ?thesis using assms(1) by simp
  next
    case False
    with DNode.prems obtain c where c: "c \<in> set cs" "p \<in> set (nids c)" by auto
    have each: "\<And>x. x \<in> set cs \<Longrightarrow> set (nids (map_children p f x)) =
        (if p \<in> set (nids x) then set (nids x) \<union> N else set (nids x))"
      using DNode.IH by (simp add: map_children_absent)
    have "(\<Union>x\<in>set cs. set (nids (map_children p f x))) = (\<Union>x\<in>set cs. set (nids x)) \<union> N"
      using each c by auto
    then show ?thesis using False by simp
  qed
qed

lemma subset_nids_map_children:
  assumes "\<And>cs. set (concat (map nids (f cs))) \<subseteq> set (concat (map nids cs)) \<union> N"
  shows "set (nids (map_children p f t)) \<subseteq> set (nids t) \<union> N"
proof (induction t)
  case (DNode m cs)
  show ?case
  proof (cases "m = p")
    case True then show ?thesis using assms by auto
  next
    case False
    have "(\<Union>x\<in>set cs. set (nids (map_children p f x))) \<subseteq> (\<Union>x\<in>set cs. set (nids x)) \<union> N"
      using DNode.IH by blast
    then show ?thesis using False by auto
  qed
qed

lemma nids_rm_kids_subset: "set (concat (map nids (rm_kids n cs))) \<subseteq> set (concat (map nids cs))"
proof (induction cs)
  case Nil then show ?case by simp
next
  case (Cons c cs)
  have "set (nids (remove_node n c)) \<subseteq> set (nids c)" by (rule nids_remove_subset)
  then show ?case using Cons by (auto simp: rm_kids_Cons)
qed

lemma distinct_rm_kids:
  assumes "\<And>c. c \<in> set cs \<Longrightarrow> distinct (nids c) \<Longrightarrow> distinct (nids (remove_node n c))"
      and "distinct (concat (map nids cs))"
  shows "distinct (concat (map nids (rm_kids n cs)))"
  using assms
proof (induction cs)
  case Nil then show ?case by simp
next
  case (Cons c cs)
  have rest: "distinct (concat (map nids (rm_kids n cs)))"
    using Cons by simp
  have sub: "set (concat (map nids (rm_kids n cs))) \<subseteq> set (concat (map nids cs))"
    by (rule nids_rm_kids_subset)
  have subc: "set (nids (remove_node n c)) \<subseteq> set (nids c)" by (rule nids_remove_subset)
  have disj: "set (nids c) \<inter> set (concat (map nids cs)) = {}"
    using Cons.prems(2) by simp
  have dc: "distinct (nids (remove_node n c))" using Cons.prems by simp
  have "set (nids (remove_node n c)) \<inter> set (concat (map nids (rm_kids n cs))) = {}"
    using sub subc disj by blast
  then show ?case using rest dc by (simp add: rm_kids_Cons)
qed

lemma distinct_remove: "distinct (nids t) \<Longrightarrow> distinct (nids (remove_node n t))"
proof (induction t)
  case (DNode m cs)
  have d: "distinct (concat (map nids cs))" and m: "m \<notin> set (concat (map nids cs))"
    using DNode.prems by simp_all
  have "distinct (concat (map nids (rm_kids n cs)))"
    using DNode.IH d by (intro distinct_rm_kids) auto
  moreover have "m \<notin> set (concat (map nids (rm_kids n cs)))"
    using m nids_rm_kids_subset[of n cs] by blast
  ultimately show ?case by (simp add: rm_kids_def)
qed

lemma distinct_map_children:
  assumes H: "\<And>cs. distinct (concat (map nids cs)) \<Longrightarrow> set (concat (map nids cs)) \<inter> N = {} \<Longrightarrow>
                distinct (concat (map nids (f cs)))"
      and S: "\<And>cs. set (concat (map nids (f cs))) \<subseteq> set (concat (map nids cs)) \<union> N"
      and "distinct (nids t)" and "set (nids t) \<inter> N = {}"
  shows "distinct (nids (map_children p f t))"
  using assms(3,4)
proof (induction t)
  case (DNode m cs)
  have d: "distinct (concat (map nids cs))" and m: "m \<notin> set (concat (map nids cs))"
    and mN: "m \<notin> N" and dN: "set (concat (map nids cs)) \<inter> N = {}"
    using DNode.prems by auto
  show ?case
  proof (cases "m = p")
    case True
    have "distinct (concat (map nids (f cs)))" using H d dN by simp
    moreover have "m \<notin> set (concat (map nids (f cs)))" using S[of cs] m mN by blast
    ultimately show ?thesis using True by simp
  next
    case False
    have sub: "\<And>x. set (nids (map_children p f x)) \<subseteq> set (nids x) \<union> N"
      using S by (rule subset_nids_map_children)
    have "distinct (concat (map nids (map (map_children p f) cs)))"
      using DNode.IH d dN
    proof (induction cs)
      case Nil then show ?case by simp
    next
      case (Cons c cs)
      have dc: "distinct (nids c)" and dcs: "distinct (concat (map nids cs))"
        and disj: "set (nids c) \<inter> set (concat (map nids cs)) = {}"
        and cN: "set (nids c) \<inter> N = {}" and csN: "set (concat (map nids cs)) \<inter> N = {}"
        using Cons.prems(2,3) by auto
      have dmc: "distinct (nids (map_children p f c))" using Cons.prems(1)[of c] dc cN by simp
      show ?case
      proof (cases "p \<in> set (nids c)")
        case True
        then have "p \<notin> set (concat (map nids cs))" using disj by blast
        then have "\<forall>x\<in>set cs. p \<notin> set (nids x)" by auto
        then have same: "map (map_children p f) cs = cs"
          by (simp add: map_children_absent map_idI)
        have "set (nids (map_children p f c)) \<inter> set (concat (map nids cs)) = {}"
          using sub[of c] disj csN by blast
        then show ?thesis using dmc dcs same by simp
      next
        case False
        then have same: "map_children p f c = c" by (rule map_children_absent)
        have rest: "distinct (concat (map nids (map (map_children p f) cs)))"
          using Cons.IH Cons.prems(1) dcs csN by simp
        have "set (concat (map nids (map (map_children p f) cs))) \<subseteq> set (concat (map nids cs)) \<union> N"
          using sub by auto
        then have "set (nids c) \<inter> set (concat (map nids (map (map_children p f) cs))) = {}"
          using disj cN by blast
        then show ?thesis using dc rest same by simp
      qed
    qed
    moreover have "m \<notin> set (concat (map nids (map (map_children p f) cs)))"
    proof -
      have "set (concat (map nids (map (map_children p f) cs))) \<subseteq> set (concat (map nids cs)) \<union> N"
        using sub by auto
      then show ?thesis using m mN by blast
    qed
    ultimately show ?thesis using False by simp
  qed
qed

section \<open>Fields after the primitive operations\<close>

lemma setAttribute_fields [simp]:
  "tree (setAttribute n a v w) = tree w"
  "next_id (setAttribute n a v w) = next_id w"
  "tag (elems (setAttribute n a v w) m) = tag (elems w m)"
  "classes (elems (setAttribute n a v w) m) = classes (elems w m)"
  "style (elems (setAttribute n a v w) m) = style (elems w m)"
  "text_data (elems (setAttribute n a v w) m) = text_data (elems w m)"
  "attrs (elems (setAttribute n a v w) m) b =
     (if m = n \<and> b = a then Some v else attrs (elems w m) b)"
  by (simp_all add: setAttribute_def)

lemma removeAttribute_fields [simp]:
  "tree (removeAttribute n a w) = tree w"
  "next_id (removeAttribute n a w) = next_id w"
  "tag (elems (removeAttribute n a w) m) = tag (elems w m)"
  "classes (elems (removeAttribute n a w) m) = classes (elems w m)"
  "style (elems (removeAttribute n a w) m) = style (elems w m)"
  "text_data (elems (removeAttribute n a w) m) = text_data (elems w m)"
  "attrs (elems (removeAttribute n a w) m) b =
     (if m = n \<and> b = a then None else attrs (elems w m) b)"
  by (simp_all add: removeAttribute_def)

lemma remove_fields [simp]:
  "tree (remove n w) = remove_node n (tree w)"
  "next_id (remove n w) = next_id w"
  "elems (remove n w) = elems w"
  by (simp_all add: remove_def)

lemma appendChild_fields [simp]:
  "tree (appendChild p sub w) = map_children p (\<lambda>cs. cs @ [sub]) (tree w)"
  "next_id (appendChild p sub w) = next_id w"
  "elems (appendChild p sub w) = elems w"
  by (simp_all add: appendChild_def)

lemma remove_all_children_fields [simp]:
  "tree (remove_all_children p w) = map_children p (\<lambda>cs. []) (tree w)"
  "next_id (remove_all_children p w) = next_id w"
  "elems (remove_all_children p w) = elems w"
  by (simp_all add: remove_all_children_def)

lemma createElement_fields [simp]:
  "fst (createElement t w) = next_id w"
  "tree (snd (createElement t w)) = tree w"
  "next_id (snd (createElement t w)) = Suc (next_id w)"
  "elems (snd (createElement t w)) m = (if m = next_id w then new_elem t else elems w m)"
  by (simp_all add: createElement_def)

lemma createTextNode_fields [simp]:
  "fst (createTextNode t w) = next_id w"
  "tree (snd (createTextNode t w)) = tree w"
  "next_id (snd (createTextNode t w)) = Suc (next_id w)"
  "elems (snd (createTextNode t w)) m = (if m = next_id w then new_text t else elems w m)"
  by (simp_all add: createTextNode_def)

lemma new_elem_fields [simp]:
  "tag (new_elem t) = t" "attrs (new_elem t) = Map.empty" "classes (new_elem t) = []"
  "style (new_elem t) = Map.empty" "text_data (new_elem t) = []"
  by (simp_all add: new_elem_def)

lemma new_text_fields [simp]:
  "tag (new_text t) = ''#text''" "attrs (new_text t) = Map.empty" "classes (new_text t) = []"
  "style (new_text t) = Map.empty" "text_data (new_text t) = t"
  by (simp_all add: new_text_def)

lemma set_textContent_fields [simp]:
  "tree (set_textContent n s w) =
     map_children n (\<lambda>cs. if s = [] then [] else [DNode (next_id w) []]) (tree w)"
  "next_id (set_textContent n s w) = (if s = [] then next_id w else Suc (next_id w))"
  "elems (set_textContent n s w) m =
     (if s \<noteq> [] \<and> m = next_id w then new_text s else elems w m)"
  by (simp_all add: set_textContent_def createTextNode_def remove_all_children_def)

section \<open>Looking up by id\<close>

lemma getElementById_ids_with:
  "getElementById w i =
     (if i = [] then None else (case ids_with w i of [] \<Rightarrow> None | x # _ \<Rightarrow> Some x))"
  by (simp add: getElementById_def ids_with_def find_filter_hd)

lemma ids_with_cong:
  assumes "tree w' = tree w"
      and "\<And>n. n \<in> set (nids (tree w)) \<Longrightarrow>
             tag (elems w' n) = tag (elems w n) \<and> attrs (elems w' n) ''id'' = attrs (elems w n) ''id''"
  shows "ids_with w' i = ids_with w i"
  unfolding ids_with_def doc_elements_def filter_filter assms(1)
  by (rule filter_cong) (simp_all add: is_element_def getAttribute_def assms(2))

section \<open>The root element, the head and the body\<close>

lemma find_filter_same:
  "(\<And>x. x \<in> set xs \<Longrightarrow> P x \<Longrightarrow> Q x) \<Longrightarrow> find P (filter Q xs) = find P xs"
  by (induction xs) auto

lemma find_root_remove:
  assumes "\<And>c. c \<in> set cs \<Longrightarrow> P (root_id c) \<Longrightarrow> root_id c \<noteq> s"
  shows "find (\<lambda>c. P (root_id c)) (rm_kids s cs) = map_option (remove_node s) (find (\<lambda>c. P (root_id c)) cs)"
  using assms by (induction cs) (auto simp: rm_kids_Cons)

lemma kids_remove_node: "kids (remove_node s t) = rm_kids s (kids t)"
  by (cases t) (simp add: rm_kids_def)

lemma kids_map_children: "root_id t \<noteq> p \<Longrightarrow> kids (map_children p f t) = map (map_children p f) (kids t)"
  by (cases t) simp

lemma map_root_rm_kids: "map root_id (rm_kids s cs) = filter (\<lambda>x. x \<noteq> s) (map root_id cs)"
  by (induction cs) (auto simp: rm_kids_Cons)

lemma find_root_remove_Some:
  "find (\<lambda>c. P (root_id c)) cs = Some c0 \<Longrightarrow> root_id c0 \<noteq> s \<Longrightarrow>
   find (\<lambda>c. P (root_id c)) (rm_kids s cs) = Some (remove_node s c0)"
  by (induction cs) (auto simp: rm_kids_Cons split: if_splits)

lemma find_Some_in: "find P xs = Some x \<Longrightarrow> x \<in> set xs \<and> P x"
  by (induction xs) (auto split: if_splits)

lemma kid_nids: "c \<in> set (kids t) \<Longrightarrow> set (nids c) \<subseteq> set (nids t)"
  by (cases t) auto

lemma kid_root_in: "c \<in> set (kids t) \<Longrightarrow> root_id c \<in> set (nids t)"
  using kid_nids[of c t] root_in_nids[of c] by blast

lemma kid_root_not_root:
  assumes "distinct (nids t)" and "c \<in> set (kids t)"
  shows "root_id c \<noteq> root_id t"
proof (cases t)
  case (DNode m cs)
  have "c \<in> set cs" using assms(2) DNode by simp
  then have "set (nids c) \<subseteq> set (concat (map nids cs))" by auto
  then have "root_id c \<in> set (concat (map nids cs))" using root_in_nids[of c] by blast
  moreover have "m \<notin> set (concat (map nids cs))" using assms(1) DNode by simp
  ultimately show ?thesis using DNode by auto
qed

text \<open>The parts of the head lookup.\<close>

lemma document_head_SomeD:
  assumes "document_head w = Some h"
  obtains ht where "documentElement_tree w = Some ht" "tag (elems w (root_id ht)) = ''html''"
     "find (\<lambda>c. tag (elems w c) = ''head'') (map root_id (kids ht)) = Some h"
  using assms by (auto simp: document_head_def split: option.splits if_splits)

lemma document_body_SomeD:
  assumes "document_body w = Some b"
  obtains ht where "documentElement_tree w = Some ht" "tag (elems w (root_id ht)) = ''html''"
     "find (\<lambda>c. tag (elems w c) = ''body'' \<or> tag (elems w c) = ''frameset'') (map root_id (kids ht)) = Some b"
  using assms by (auto simp: document_body_def split: option.splits if_splits)

lemma documentElement_tree_in:
  assumes "documentElement_tree w = Some ht"
  shows "ht \<in> set (kids (tree w))" "is_element w (root_id ht)"
  using find_Some_in[OF assms[unfolded documentElement_tree_def]] by auto

lemma find_cong_set: "(\<And>x. x \<in> set xs \<Longrightarrow> P x = Q x) \<Longrightarrow> find P xs = find Q xs"
  by (induction xs) auto

text \<open>
  An edit of the child list of a node other than the Document node and the root element
  leaves the root element, the head and the body in place.
\<close>

lemma structure_after_map_children:
  assumes t': "tree w' = map_children p f (tree w)"
      and tags: "\<And>n. n \<in> set (nids (tree w)) \<Longrightarrow> tag (elems w' n) = tag (elems w n)"
      and ht: "documentElement_tree w = Some ht"
      and p: "p \<noteq> root_id (tree w)" "p \<noteq> root_id ht"
  shows "documentElement_tree w' = Some (map_children p f ht)"
    and "documentElement w' = documentElement w"
    and "document_head w' = document_head w"
    and "document_body w' = document_body w"
proof -
  have in_kids: "ht \<in> set (kids (tree w))" using documentElement_tree_in[OF ht] by simp
  have kids': "kids (tree w') = map (map_children p f) (kids (tree w))"
    unfolding t' using p(1) by (simp add: kids_map_children)
  have el: "\<And>c. c \<in> set (kids (tree w)) \<Longrightarrow> is_element w' (root_id c) = is_element w (root_id c)"
    using tags kid_root_in by (simp add: is_element_def)
  have "find (\<lambda>c. is_element w' (root_id c)) (kids (tree w)) = find (\<lambda>c. is_element w (root_id c)) (kids (tree w))"
    by (rule find_cong_set) (rule el)
  then have f1: "find (\<lambda>c. is_element w' (root_id c)) (kids (tree w)) = Some ht"
    using ht by (simp add: documentElement_tree_def)
  have "find (\<lambda>c. is_element w' (root_id c)) (map (map_children p f) (kids (tree w)))
        = map_option (map_children p f) (find (\<lambda>c. is_element w' (root_id c)) (kids (tree w)))"
    by (rule find_map_root) simp
  then show det: "documentElement_tree w' = Some (map_children p f ht)"
    using f1 kids' by (simp add: documentElement_tree_def)
  show "documentElement w' = documentElement w"
    using det ht by (simp add: documentElement_def)
  have kk: "map root_id (kids (map_children p f ht)) = map root_id (kids ht)"
    using p(2) by (simp add: kids_map_children)
  have sub: "set (map root_id (kids ht)) \<subseteq> set (nids (tree w))"
  proof
    fix x assume "x \<in> set (map root_id (kids ht))"
    then obtain c where c: "c \<in> set (kids ht)" "x = root_id c" by auto
    then have "x \<in> set (nids ht)" using kid_root_in by simp
    then show "x \<in> set (nids (tree w))" using kid_nids[OF in_kids] by blast
  qed
  have rt: "tag (elems w' (root_id ht)) = tag (elems w (root_id ht))"
    using tags kid_root_in[OF in_kids] by simp
  have fh: "\<And>P. find (\<lambda>c. P (tag (elems w' c))) (map root_id (kids ht)) = find (\<lambda>c. P (tag (elems w c))) (map root_id (kids ht))"
    using sub tags by (intro find_cong_set) auto
  show "document_head w' = document_head w"
    unfolding document_head_def det ht using kk rt fh[of "\<lambda>t. t = ''head''"] by simp
  show "document_body w' = document_body w"
    unfolding document_body_def det ht using kk rt fh[of "\<lambda>t. t = ''body'' \<or> t = ''frameset''"] by simp
qed

text \<open>The same when only the node data changes, on nodes outside the document or without touching tags.\<close>

lemma structure_same_tree:
  assumes t': "tree w' = tree w"
      and tags: "\<And>n. n \<in> set (nids (tree w)) \<Longrightarrow> tag (elems w' n) = tag (elems w n)"
  shows "documentElement_tree w' = documentElement_tree w"
    and "documentElement w' = documentElement w"
    and "document_head w' = document_head w"
    and "document_body w' = document_body w"
proof -
  have el: "\<And>c. c \<in> set (kids (tree w)) \<Longrightarrow> is_element w' (root_id c) = is_element w (root_id c)"
    using tags kid_root_in by (simp add: is_element_def)
  show det: "documentElement_tree w' = documentElement_tree w"
    unfolding documentElement_tree_def t' by (rule find_cong_set) (rule el)
  show "documentElement w' = documentElement w" using det by (simp add: documentElement_def)
  show "document_head w' = document_head w"
  proof (cases "documentElement_tree w")
    case None then show ?thesis using det by (simp add: document_head_def)
  next
    case (Some ht)
    have in_kids: "ht \<in> set (kids (tree w))" using documentElement_tree_in[OF Some] by simp
    have sub: "\<And>x. x \<in> set (map root_id (kids ht)) \<Longrightarrow> x \<in> set (nids (tree w))"
      using kid_root_in kid_nids[OF in_kids] by fastforce
    have rt: "tag (elems w' (root_id ht)) = tag (elems w (root_id ht))"
      using tags kid_root_in[OF in_kids] by simp
    have "find (\<lambda>c. tag (elems w' c) = ''head'') (map root_id (kids ht)) = find (\<lambda>c. tag (elems w c) = ''head'') (map root_id (kids ht))"
      using sub tags by (intro find_cong_set) auto
    then show ?thesis unfolding document_head_def det Some using rt by simp
  qed
  show "document_body w' = document_body w"
  proof (cases "documentElement_tree w")
    case None then show ?thesis using det by (simp add: document_body_def)
  next
    case (Some ht)
    have in_kids: "ht \<in> set (kids (tree w))" using documentElement_tree_in[OF Some] by simp
    have sub: "\<And>x. x \<in> set (map root_id (kids ht)) \<Longrightarrow> x \<in> set (nids (tree w))"
      using kid_root_in kid_nids[OF in_kids] by fastforce
    have rt: "tag (elems w' (root_id ht)) = tag (elems w (root_id ht))"
      using tags kid_root_in[OF in_kids] by simp
    have "find (\<lambda>c. tag (elems w' c) = ''body'' \<or> tag (elems w' c) = ''frameset'') (map root_id (kids ht))
        = find (\<lambda>c. tag (elems w c) = ''body'' \<or> tag (elems w c) = ''frameset'') (map root_id (kids ht))"
      using sub tags by (intro find_cong_set) auto
    then show ?thesis unfolding document_body_def det Some using rt by simp
  qed
qed

text \<open>Removing a node that is neither the root element, nor a head, nor a body.\<close>

lemma structure_after_remove:
  assumes t': "tree w' = remove_node s (tree w)"
      and e': "elems w' = elems w"
      and ht: "documentElement_tree w = Some ht"
      and s: "s \<noteq> root_id ht"
  shows "documentElement_tree w' = Some (remove_node s ht)"
    and "documentElement w' = documentElement w"
    and "tag (elems w s) \<noteq> ''head'' \<Longrightarrow> document_head w' = document_head w"
    and "tag (elems w s) \<noteq> ''body'' \<Longrightarrow> tag (elems w s) \<noteq> ''frameset'' \<Longrightarrow> document_body w' = document_body w"
proof -
  have iel: "is_element w' = is_element w" using e' by (auto simp: is_element_def fun_eq_iff)
  show det: "documentElement_tree w' = Some (remove_node s ht)"
    unfolding documentElement_tree_def t' kids_remove_node iel
    using ht s by (intro find_root_remove_Some) (simp_all add: documentElement_tree_def)
  show "documentElement w' = documentElement w" using det ht by (simp add: documentElement_def)
  have kk: "map root_id (kids (remove_node s ht)) = filter (\<lambda>x. x \<noteq> s) (map root_id (kids ht))"
    by (simp add: kids_remove_node map_root_rm_kids)
  show "document_head w' = document_head w" if "tag (elems w s) \<noteq> ''head''"
  proof -
    have "find (\<lambda>c. tag (elems w c) = ''head'') (filter (\<lambda>x. x \<noteq> s) (map root_id (kids ht)))
        = find (\<lambda>c. tag (elems w c) = ''head'') (map root_id (kids ht))"
      using that by (intro find_filter_same) auto
    then show ?thesis unfolding document_head_def det ht e' by (simp add: kk)
  qed
  show "document_body w' = document_body w" if "tag (elems w s) \<noteq> ''body''" "tag (elems w s) \<noteq> ''frameset''"
  proof -
    have "find (\<lambda>c. tag (elems w c) = ''body'' \<or> tag (elems w c) = ''frameset'') (filter (\<lambda>x. x \<noteq> s) (map root_id (kids ht)))
        = find (\<lambda>c. tag (elems w c) = ''body'' \<or> tag (elems w c) = ''frameset'') (map root_id (kids ht))"
      using that by (intro find_filter_same) auto
    then show ?thesis unfolding document_body_def det ht e' by (simp add: kk)
  qed
qed

lemma wf_worldD:
  assumes "wf_world w"
  shows "distinct (nids (tree w))" "\<And>n. n \<in> set (nids (tree w)) \<Longrightarrow> n < next_id w"
    "tag (elems w (root_id (tree w))) = ''#document''" "next_id w \<notin> set (nids (tree w))"
  using assms by (auto simp: wf_world_def list_all_iff)

lemma wf_worldI:
  assumes "distinct (nids (tree w))" "\<And>n. n \<in> set (nids (tree w)) \<Longrightarrow> n < next_id w"
    "tag (elems w (root_id (tree w))) = ''#document''"
  shows "wf_world w"
  using assms by (auto simp: wf_world_def list_all_iff)

lemma wf_after_remove:
  assumes "wf_world w" and "tree w' = remove_node s (tree w)" and "next_id w \<le> next_id w'"
      and "tag (elems w' (root_id (tree w))) = ''#document''"
  shows "wf_world w'"
proof (rule wf_worldI)
  show "distinct (nids (tree w'))" using wf_worldD(1)[OF assms(1)] assms(2) by (simp add: distinct_remove)
  show "n < next_id w'" if "n \<in> set (nids (tree w'))" for n
    using that nids_remove_subset[of s "tree w"] wf_worldD(2)[OF assms(1), of n] assms(2,3) by auto
  show "tag (elems w' (root_id (tree w'))) = ''#document''" using assms(2,4) by simp
qed

lemma wf_same_tree:
  assumes "wf_world w" and "tree w' = tree w" and "next_id w \<le> next_id w'"
      and "tag (elems w' (root_id (tree w))) = ''#document''"
  shows "wf_world w'"
proof (rule wf_worldI)
  show "distinct (nids (tree w'))" using wf_worldD(1)[OF assms(1)] assms(2) by simp
  show "n < next_id w'" if "n \<in> set (nids (tree w'))" for n
    using that wf_worldD(2)[OF assms(1), of n] assms(2,3) by auto
  show "tag (elems w' (root_id (tree w'))) = ''#document''" using assms(2,4) by simp
qed

lemma wf_after_map_children:
  assumes wf: "wf_world w" and t': "tree w' = map_children p f (tree w)"
      and H: "\<And>cs. distinct (concat (map nids cs)) \<Longrightarrow> set (concat (map nids cs)) \<inter> N = {} \<Longrightarrow>
                distinct (concat (map nids (f cs)))"
      and S: "\<And>cs. set (concat (map nids (f cs))) \<subseteq> set (concat (map nids cs)) \<union> N"
      and N: "\<And>x. x \<in> N \<Longrightarrow> next_id w \<le> x \<and> x < next_id w'"
      and le: "next_id w \<le> next_id w'"
      and root: "tag (elems w' (root_id (tree w))) = ''#document''"
  shows "wf_world w'"
proof (rule wf_worldI)
  have disj: "set (nids (tree w)) \<inter> N = {}"
    using wf_worldD(2)[OF wf] N by fastforce
  show "distinct (nids (tree w'))"
    unfolding t' using H S wf_worldD(1)[OF wf] disj by (rule distinct_map_children)
  show "n < next_id w'" if "n \<in> set (nids (tree w'))" for n
  proof -
    have "n \<in> set (nids (tree w)) \<union> N"
      using that subset_nids_map_children[of f N p "tree w", OF S] unfolding t' by blast
    then show ?thesis using wf_worldD(2)[OF wf, of n] N[of n] le by auto
  qed
  show "tag (elems w' (root_id (tree w'))) = ''#document''" using t' root by simp
qed

text \<open>Appending fresh leaves.\<close>

lemma append_fresh_H:
  "distinct (concat (map nids cs)) \<Longrightarrow> set (concat (map nids cs)) \<inter> set (concat (map nids new)) = {} \<Longrightarrow>
   distinct (concat (map nids new)) \<Longrightarrow> distinct (concat (map nids (cs @ new)))"
  by auto

lemma node_stays: "p \<in> set (nids t) \<Longrightarrow> p \<in> set (nids (map_children p f t))"
  by (induction t) auto

lemma head_position:
  assumes wf: "wf_world w" and ht: "documentElement_tree w = Some ht"
  shows "root_id ht \<noteq> root_id (tree w)" "root_id ht \<in> set (nids (tree w))"
    "root_id ht < next_id w"
    "\<And>c. c \<in> set (map root_id (kids ht)) \<Longrightarrow>
        c \<noteq> root_id (tree w) \<and> c \<noteq> root_id ht \<and> c \<in> set (nids (tree w)) \<and> c < next_id w"
proof -
  have in_kids: "ht \<in> set (kids (tree w))" using documentElement_tree_in[OF ht] by simp
  have d: "distinct (nids (tree w))" using wf_worldD(1)[OF wf] .
  show r1: "root_id ht \<noteq> root_id (tree w)" using kid_root_not_root[OF d in_kids] .
  show r2: "root_id ht \<in> set (nids (tree w))" using kid_root_in[OF in_kids] .
  show "root_id ht < next_id w" using wf_worldD(2)[OF wf r2] .
  have dht: "distinct (nids ht)"
  proof (cases "tree w")
    case (DNode m cs)
    then have "distinct (concat (map nids cs))" "ht \<in> set cs" using d in_kids by simp_all
    then show ?thesis by (induction cs) auto
  qed
  have sub: "set (nids ht) \<subseteq> set (nids (tree w))" using kid_nids[OF in_kids] .
  have notroot: "root_id (tree w) \<notin> set (nids ht)"
  proof (cases "tree w")
    case (DNode m cs)
    then have "m \<notin> set (concat (map nids cs))" "ht \<in> set cs" using d in_kids by simp_all
    then have "m \<notin> set (nids ht)" by auto
    then show ?thesis using DNode by simp
  qed
  show "c \<noteq> root_id (tree w) \<and> c \<noteq> root_id ht \<and> c \<in> set (nids (tree w)) \<and> c < next_id w"
    if "c \<in> set (map root_id (kids ht))" for c
  proof -
    from that obtain k where k: "k \<in> set (kids ht)" "c = root_id k" by auto
    have c_in: "c \<in> set (nids ht)" using kid_root_in[OF k(1)] k(2) by simp
    have "c \<noteq> root_id ht" using kid_root_not_root[OF dht k(1)] k(2) by simp
    moreover have "c \<noteq> root_id (tree w)" using c_in notroot by auto
    moreover have "c \<in> set (nids (tree w))" using c_in sub by blast
    ultimately show ?thesis using wf_worldD(2)[OF wf, of c] by simp
  qed
qed

lemma head_in_kids:
  assumes "document_head w = Some h" "documentElement_tree w = Some ht"
  shows "h \<in> set (map root_id (kids ht))"
  using assms find_Some_in[of "\<lambda>c. tag (elems w c) = ''head''" "map root_id (kids ht)" h]
  by (auto simp: document_head_def split: if_splits)

lemma body_in_kids:
  assumes "document_body w = Some b" "documentElement_tree w = Some ht"
  shows "b \<in> set (map root_id (kids ht))"
  using assms find_Some_in[of "\<lambda>c. tag (elems w c) = ''body'' \<or> tag (elems w c) = ''frameset''" "map root_id (kids ht)" b]
  by (auto simp: document_body_def split: if_splits)

lemma ids_with_in:
  "s \<in> set (ids_with w i) \<Longrightarrow> s \<in> set (nids (tree w)) \<and> is_element w s \<and> getAttribute w s ''id'' = Some i"
  by (simp add: ids_with_def doc_elements_def)

lemma distinct_ids_with: "distinct (nids (tree w)) \<Longrightarrow> distinct (ids_with w i)"
  by (simp add: ids_with_def doc_elements_def)

lemma element_not_root:
  assumes "wf_world w" "is_element w s"
  shows "s \<noteq> root_id (tree w)"
  using assms wf_worldD(3)[OF assms(1)] by (auto simp: is_element_def)

text \<open>After removing the only element with an id, no element has it.\<close>

lemma ids_with_after_remove:
  assumes wf: "wf_world w" and one: "ids_with w i = [s]"
  shows "ids_with (remove s w) i = []"
proof -
  have s: "is_element w s" using ids_with_in[of s w i] one by simp
  have sr: "s \<noteq> root_id (tree w)" using element_not_root[OF wf s] .
  have "\<And>x. x \<in> set (nids (remove_node s (tree w))) \<Longrightarrow>
          \<not> (is_element w x \<and> getAttribute w x ''id'' = Some i)"
  proof
    fix x assume x: "x \<in> set (nids (remove_node s (tree w)))"
      and q: "is_element w x \<and> getAttribute w x ''id'' = Some i"
    have "x \<in> set (nids (tree w))" using x nids_remove_subset by blast
    then have "x \<in> set (ids_with w i)" using q by (simp add: ids_with_def doc_elements_def)
    then have "x = s" using one by simp
    then show False using x nids_remove_notin[OF sr] by simp
  qed
  then show ?thesis
    by (simp add: ids_with_def doc_elements_def is_element_def getAttribute_def filter_empty_conv)
qed

lemma contrast_style_id_nonempty [simp]: "contrast_style_id \<noteq> []"
  by (simp add: contrast_style_id_def)

text \<open>The first step of \<open>applyContrast\<close>: the old style element leaves.\<close>

lemma clear_contrast_style:
  assumes ready: "contrast_ready w"
  defines "w1 \<equiv> (case getElementById w contrast_style_id of None \<Rightarrow> w | Some s \<Rightarrow> remove s w)"
  shows "wf_world w1" "ids_with w1 contrast_style_id = []" "document_head w1 = document_head w"
    "documentElement w1 = documentElement w" "elems w1 = elems w" "next_id w1 = next_id w"
proof -
  have wf: "wf_world w" and hd: "document_head w \<noteq> None"
    and len: "length (ids_with w contrast_style_id) \<le> 1"
    and sty: "\<And>s. s \<in> set (ids_with w contrast_style_id) \<Longrightarrow> tag (elems w s) = ''style''"
    using ready by (auto simp: contrast_ready_def list_all_iff)
  obtain h where h: "document_head w = Some h" using hd by auto
  obtain ht where ht: "documentElement_tree w = Some ht" "tag (elems w (root_id ht)) = ''html''"
    using document_head_SomeD[OF h] by blast
  have all: "wf_world w1 \<and> ids_with w1 contrast_style_id = [] \<and> document_head w1 = document_head w \<and>
    documentElement w1 = documentElement w \<and> elems w1 = elems w \<and> next_id w1 = next_id w"
  proof (cases "ids_with w contrast_style_id")
    case Nil
    then have "w1 = w" by (simp add: w1_def getElementById_ids_with)
    then show ?thesis using wf Nil by simp
  next
    case (Cons s rest)
    with len have one: "ids_with w contrast_style_id = [s]" by simp
    then have w1: "w1 = remove s w" by (simp add: w1_def getElementById_ids_with)
    have ts: "tag (elems w s) = ''style''" using sty one by simp
    have sr: "s \<noteq> root_id ht" using ts ht(2) by auto
    have "wf_world w1" unfolding w1
      by (rule wf_after_remove[OF wf]) (simp_all add: wf_worldD(3)[OF wf])
    moreover have "ids_with w1 contrast_style_id = []"
      unfolding w1 by (rule ids_with_after_remove[OF wf one])
    moreover have "document_head w1 = document_head w" unfolding w1
      by (rule structure_after_remove(3)[OF _ _ ht(1) sr]) (simp_all add: ts)
    moreover have "documentElement w1 = documentElement w" unfolding w1
      by (rule structure_after_remove(2)[OF _ _ ht(1) sr]) simp_all
    ultimately show ?thesis unfolding w1 by simp
  qed
  show "wf_world w1" "ids_with w1 contrast_style_id = []" "document_head w1 = document_head w"
    "documentElement w1 = documentElement w" "elems w1 = elems w" "next_id w1 = next_id w"
    using all by simp_all
qed

text \<open>
  Appending a new element with the id \<open>i\<close> to the head of a document where no element
  has that id, then giving it a text.
\<close>

lemma inject_style:
  assumes wf: "wf_world w1" and none: "ids_with w1 i = []" and h: "document_head w1 = Some h"
      and i: "i \<noteq> []"
  defines "st \<equiv> next_id w1"
  defines "w3 \<equiv> setAttribute st ''id'' i (snd (createElement ''style'' w1))"
  defines "w4 \<equiv> appendChild h (DNode st []) w3"
  shows "document_head w3 = Some h"
    and "wf_world w4" and "document_head w4 = Some h" and "documentElement w4 = documentElement w1"
    and "ids_with w4 i = [st]" and "tag (elems w4 st) = ''style''"
    and "st \<in> set (nids (tree w4))"
proof -
  obtain ht where ht: "documentElement_tree w1 = Some ht" "tag (elems w1 (root_id ht)) = ''html''"
    using document_head_SomeD[OF h] by blast
  have fresh: "st \<notin> set (nids (tree w1))" using wf_worldD(4)[OF wf] by (simp add: st_def)
  have old: "\<And>n. n \<in> set (nids (tree w1)) \<Longrightarrow> n \<noteq> st" using fresh by auto
  have t3: "tree w3 = tree w1" by (simp add: w3_def)
  have e3: "\<And>n. n \<noteq> st \<Longrightarrow> elems w3 n = elems w1 n"
    by (simp add: w3_def st_def setAttribute_def createElement_def)
  have tags3: "\<And>n. n \<in> set (nids (tree w1)) \<Longrightarrow> tag (elems w3 n) = tag (elems w1 n)"
    using old e3 by simp
  show h3: "document_head w3 = Some h"
    using structure_same_tree(3)[OF t3 tags3] h by simp
  have ht3: "documentElement_tree w3 = Some ht"
    using structure_same_tree(1)[OF t3 tags3] ht by simp
  have hk: "h \<in> set (map root_id (kids ht))" using head_in_kids[OF h ht(1)] .
  have hpos: "h \<noteq> root_id (tree w1)" "h \<noteq> root_id ht" "h \<in> set (nids (tree w1))"
    using head_position(4)[OF wf ht(1) hk] by simp_all
  have t4: "tree w4 = map_children h (\<lambda>cs. cs @ [DNode st []]) (tree w1)"
    by (simp add: w4_def t3)
  have e4: "elems w4 = elems w3" by (simp add: w4_def)
  have n4: "next_id w4 = Suc (next_id w1)" by (simp add: w4_def w3_def)
  show wf4: "wf_world w4"
  proof (rule wf_after_map_children[OF wf t4, where N="{st}"])
    show "distinct (concat (map nids (cs @ [DNode st []])))"
      if "distinct (concat (map nids cs))" "set (concat (map nids cs)) \<inter> {st} = {}" for cs
      using that by auto
    show "set (concat (map nids (cs @ [DNode st []]))) \<subseteq> set (concat (map nids cs)) \<union> {st}" for cs
      by auto
    show "next_id w1 \<le> x \<and> x < next_id w4" if "x \<in> {st}" for x
      using that by (simp add: st_def n4)
    show "next_id w1 \<le> next_id w4" by (simp add: n4)
    have "root_id (tree w1) \<noteq> st" using old[of "root_id (tree w1)"] by simp
    then show "tag (elems w4 (root_id (tree w1))) = ''#document''"
      using wf_worldD(3)[OF wf] e3 e4 by simp
  qed
  have tags4: "\<And>n. n \<in> set (nids (tree w3)) \<Longrightarrow> tag (elems w4 n) = tag (elems w3 n)"
    using e4 by simp
  have t43: "tree w4 = map_children h (\<lambda>cs. cs @ [DNode st []]) (tree w3)" using t4 t3 by simp
  show "document_head w4 = Some h"
    using structure_after_map_children(3)[OF t43 tags4 ht3] hpos h3 t3 by simp
  show "documentElement w4 = documentElement w1"
    using structure_after_map_children(2)[OF t43 tags4 ht3] hpos t3
      structure_same_tree(2)[OF t3 tags3] by simp
  have set4: "set (nids (tree w4)) = set (nids (tree w1)) \<union> {st}"
    unfolding t4 by (rule set_nids_map_children[OF _ hpos(3)]) auto
  show st_in: "st \<in> set (nids (tree w4))" using set4 by simp
  have est: "tag (elems w4 st) = ''style''" "attrs (elems w4 st) ''id'' = Some i"
    by (simp_all add: e4 w3_def st_def)
  show "tag (elems w4 st) = ''style''" using est by simp
  have q: "is_element w4 st \<and> getAttribute w4 st ''id'' = Some i"
    using est by (simp add: is_element_def getAttribute_def)
  have uniq: "\<forall>x\<in>set (nids (tree w4)). is_element w4 x \<and> getAttribute w4 x ''id'' = Some i \<longrightarrow> x = st"
  proof (intro ballI impI)
    fix x assume x: "x \<in> set (nids (tree w4))" and qx: "is_element w4 x \<and> getAttribute w4 x ''id'' = Some i"
    show "x = st"
    proof (rule ccontr)
      assume ne: "x \<noteq> st"
      then have xin: "x \<in> set (nids (tree w1))" using x set4 by simp
      have "elems w4 x = elems w1 x" using e3[OF ne] e4 by simp
      then have "is_element w1 x \<and> getAttribute w1 x ''id'' = Some i"
        using qx by (simp add: is_element_def getAttribute_def)
      then have "x \<in> set (ids_with w1 i)" using xin by (simp add: ids_with_def doc_elements_def)
      then show False using none by simp
    qed
  qed
  have "filter (\<lambda>n. is_element w4 n \<and> getAttribute w4 n ''id'' = Some i) (nids (tree w4)) = [st]"
    by (rule filter_singleton[OF wf_worldD(1)[OF wf4] st_in q uniq])
  then show "ids_with w4 i = [st]"
    by (simp add: ids_with_def doc_elements_def conj_commute)
qed

lemma setAttribute_structure [simp]:
  "wf_world (setAttribute n a v w) = wf_world w"
  "documentElement_tree (setAttribute n a v w) = documentElement_tree w"
  "documentElement (setAttribute n a v w) = documentElement w"
  "document_head (setAttribute n a v w) = document_head w"
  "document_body (setAttribute n a v w) = document_body w"
  "is_element (setAttribute n a v w) = is_element w"
proof -
  show "wf_world (setAttribute n a v w) = wf_world w" by (simp add: wf_world_def)
  show "documentElement_tree (setAttribute n a v w) = documentElement_tree w"
    by (rule structure_same_tree) simp_all
  show "documentElement (setAttribute n a v w) = documentElement w"
    by (rule structure_same_tree) simp_all
  show "document_head (setAttribute n a v w) = document_head w"
    by (rule structure_same_tree) simp_all
  show "document_body (setAttribute n a v w) = document_body w"
    by (rule structure_same_tree) simp_all
  show "is_element (setAttribute n a v w) = is_element w"
    by (simp add: is_element_def fun_eq_iff)
qed

lemma removeAttribute_structure [simp]:
  "wf_world (removeAttribute n a w) = wf_world w"
  "documentElement_tree (removeAttribute n a w) = documentElement_tree w"
  "documentElement (removeAttribute n a w) = documentElement w"
  "document_head (removeAttribute n a w) = document_head w"
  "document_body (removeAttribute n a w) = document_body w"
  "is_element (removeAttribute n a w) = is_element w"
proof -
  show "wf_world (removeAttribute n a w) = wf_world w" by (simp add: wf_world_def)
  show "documentElement_tree (removeAttribute n a w) = documentElement_tree w"
    by (rule structure_same_tree) simp_all
  show "documentElement (removeAttribute n a w) = documentElement w"
    by (rule structure_same_tree) simp_all
  show "document_head (removeAttribute n a w) = document_head w"
    by (rule structure_same_tree) simp_all
  show "document_body (removeAttribute n a w) = document_body w"
    by (rule structure_same_tree) simp_all
  show "is_element (removeAttribute n a w) = is_element w"
    by (simp add: is_element_def fun_eq_iff)
qed

lemma getAttribute_setAttribute [simp]:
  "getAttribute (setAttribute n a v w) m b = (if m = n \<and> b = a then Some v else getAttribute w m b)"
  by (simp add: getAttribute_def)

lemma getAttribute_removeAttribute [simp]:
  "getAttribute (removeAttribute n a w) m b = (if m = n \<and> b = a then None else getAttribute w m b)"
  by (simp add: getAttribute_def)

lemma ids_with_setAttribute [simp]:
  "a \<noteq> ''id'' \<Longrightarrow> ids_with (setAttribute n a v w) i = ids_with w i"
  by (rule ids_with_cong) simp_all

lemma ids_with_removeAttribute [simp]:
  "a \<noteq> ''id'' \<Longrightarrow> ids_with (removeAttribute n a w) i = ids_with w i"
  by (rule ids_with_cong) simp_all

text \<open>Giving a text to an element of the document.\<close>

lemma after_set_textContent:
  fixes css :: string
  assumes wf: "wf_world w" and st: "st \<in> set (nids (tree w))"
  defines "w' \<equiv> set_textContent st css w"
  shows "wf_world w'"
    and "\<And>n. n \<in> set (nids (tree w)) \<Longrightarrow> elems w' n = elems w n"
    and "set (nids (tree w')) \<subseteq> set (nids (tree w)) \<union> (if css = [] then {} else {next_id w})"
    and "st \<in> set (nids (tree w'))"
proof -
  let ?N = "if css = [] then {} else {next_id w}"
  let ?f = "\<lambda>cs::dtree list. if css = [] then [] else [DNode (next_id w) []]"
  have t': "tree w' = map_children st ?f (tree w)" by (simp add: w'_def)
  have fresh: "next_id w \<notin> set (nids (tree w))" using wf_worldD(4)[OF wf] .
  show old: "\<And>n. n \<in> set (nids (tree w)) \<Longrightarrow> elems w' n = elems w n"
    using fresh by (auto simp: w'_def)
  show "wf_world w'"
  proof (rule wf_after_map_children[OF wf t', where N="?N"])
    show "distinct (concat (map nids (?f cs)))" for cs by simp
    show "set (concat (map nids (?f cs))) \<subseteq> set (concat (map nids cs)) \<union> ?N" for cs by simp
    show "next_id w \<le> x \<and> x < next_id w'" if "x \<in> ?N" for x
      using that by (cases "css = []") (simp_all add: w'_def)
    show "next_id w \<le> next_id w'" by (simp add: w'_def)
    show "tag (elems w' (root_id (tree w))) = ''#document''"
      using old[of "root_id (tree w)"] wf_worldD(3)[OF wf] by simp
  qed
  show "set (nids (tree w')) \<subseteq> set (nids (tree w)) \<union> ?N"
    unfolding t' by (rule subset_nids_map_children) simp
  show "st \<in> set (nids (tree w'))" unfolding t' using st by (rule node_stays)
qed

lemma set_textContent_keeps_single:
  assumes wf: "wf_world w" and one: "ids_with w i = [st]"
  shows "ids_with (set_textContent st css w) i = [st]"
proof -
  let ?w = "set_textContent st css w"
  have st: "st \<in> set (nids (tree w))" "is_element w st" "getAttribute w st ''id'' = Some i"
    using ids_with_in[of st w i] one by simp_all
  note a = after_set_textContent[OF wf st(1), where css=css]
  have q: "is_element ?w st \<and> getAttribute ?w st ''id'' = Some i"
    using a(2)[OF st(1)] st(2,3) by (simp add: is_element_def getAttribute_def)
  have uniq: "\<forall>x\<in>set (nids (tree ?w)). is_element ?w x \<and> getAttribute ?w x ''id'' = Some i \<longrightarrow> x = st"
  proof (intro ballI impI)
    fix x assume x: "x \<in> set (nids (tree ?w))" and qx: "is_element ?w x \<and> getAttribute ?w x ''id'' = Some i"
    have "x \<in> set (nids (tree w))"
    proof (rule ccontr)
      assume "x \<notin> set (nids (tree w))"
      then have "css \<noteq> [] \<and> x = next_id w" using x a(3) by (auto split: if_splits)
      then have "tag (elems ?w x) = ''#text''" by simp
      then show False using qx by (simp add: is_element_def)
    qed
    moreover from this have "elems ?w x = elems w x" by (rule a(2))
    ultimately have "x \<in> set (ids_with w i)"
      using qx by (simp add: ids_with_def doc_elements_def is_element_def getAttribute_def)
    then show "x = st" using one by simp
  qed
  have "filter (\<lambda>n. is_element ?w n \<and> getAttribute ?w n ''id'' = Some i) (nids (tree ?w)) = [st]"
    by (rule filter_singleton[OF wf_worldD(1)[OF a(1)] a(4) q uniq])
  then show ?thesis by (simp add: ids_with_def doc_elements_def conj_commute)
qed

lemma structure_after_set_textContent:
  assumes wf: "wf_world w" and st: "st \<in> set (nids (tree w))" "is_element w st"
      and ht: "documentElement_tree w = Some ht" and ne: "st \<noteq> root_id ht"
  shows "documentElement (set_textContent st css w) = documentElement w"
    and "document_head (set_textContent st css w) = document_head w"
    and "document_body (set_textContent st css w) = document_body w"
proof -
  let ?w = "set_textContent st css w"
  have t': "tree ?w = map_children st (\<lambda>cs. if css = [] then [] else [DNode (next_id w) []]) (tree w)"
    by simp
  have tags: "\<And>n. n \<in> set (nids (tree w)) \<Longrightarrow> tag (elems ?w n) = tag (elems w n)"
    using after_set_textContent(2)[OF wf st(1)] by simp
  have nr: "st \<noteq> root_id (tree w)" using element_not_root[OF wf st(2)] .
  show "documentElement ?w = documentElement w"
    by (rule structure_after_map_children(2)[OF t' tags ht nr ne])
  show "document_head ?w = document_head w"
    by (rule structure_after_map_children(3)[OF t' tags ht nr ne])
  show "document_body ?w = document_body w"
    by (rule structure_after_map_children(4)[OF t' tags ht nr ne])
qed

lemma createElement_pair: "createElement t w = (next_id w, snd (createElement t w))"
  by (simp add: createElement_def)

lemma createTextNode_pair: "createTextNode t w = (next_id w, snd (createTextNode t w))"
  by (simp add: createTextNode_def)

lemma createElement_structure:
  assumes "wf_world w"
  shows "wf_world (snd (createElement t w))"
    and "documentElement_tree (snd (createElement t w)) = documentElement_tree w"
    and "documentElement (snd (createElement t w)) = documentElement w"
    and "document_head (snd (createElement t w)) = document_head w"
    and "document_body (snd (createElement t w)) = document_body w"
    and "ids_with (snd (createElement t w)) i = ids_with w i"
proof -
  let ?w = "snd (createElement t w)"
  have fresh: "next_id w \<notin> set (nids (tree w))" using wf_worldD(4)[OF assms] .
  have old: "\<And>n. n \<in> set (nids (tree w)) \<Longrightarrow> elems ?w n = elems w n"
    using fresh by auto
  have tags: "\<And>n. n \<in> set (nids (tree w)) \<Longrightarrow> tag (elems ?w n) = tag (elems w n)"
    using old by simp
  have t: "tree ?w = tree w" by simp
  have "elems ?w (root_id (tree w)) = elems w (root_id (tree w))" by (rule old) simp
  then have "tag (elems ?w (root_id (tree w))) = ''#document''"
    using wf_worldD(3)[OF assms] by simp
  then show "wf_world ?w"
    by (intro wf_same_tree[OF assms t]) simp_all
  show "documentElement_tree ?w = documentElement_tree w" by (rule structure_same_tree(1)[OF t tags])
  show "documentElement ?w = documentElement w" by (rule structure_same_tree(2)[OF t tags])
  show "document_head ?w = document_head w" by (rule structure_same_tree(3)[OF t tags])
  show "document_body ?w = document_body w" by (rule structure_same_tree(4)[OF t tags])
  show "ids_with ?w i = ids_with w i"
  proof (rule ids_with_cong[OF t])
    fix n assume "n \<in> set (nids (tree w))"
    then have "elems ?w n = elems w n" by (rule old)
    then show "tag (elems ?w n) = tag (elems w n) \<and> attrs (elems ?w n) ''id'' = attrs (elems w n) ''id''"
      by simp
  qed
qed

lemma contrast_readyD:
  assumes "contrast_ready w"
  obtains h r where "wf_world w" "document_head w = Some h" "documentElement w = Some r"
    "r \<in> set (nids (tree w))" "r < next_id w"
proof -
  have wf: "wf_world w" and hd: "document_head w \<noteq> None"
    using assms by (auto simp: contrast_ready_def)
  obtain h where h: "document_head w = Some h" using hd by auto
  obtain ht where ht: "documentElement_tree w = Some ht" using document_head_SomeD[OF h] by blast
  have "documentElement w = Some (root_id ht)" using ht by (simp add: documentElement_def)
  then show ?thesis using that wf h head_position(2,3)[OF wf ht] by blast
qed

lemma applyContrast_step:
  assumes ready: "contrast_ready (page p)"
  shows "\<exists>p' r. applyContrast level p = Inr p' \<and> contrast_ready (page p') \<and>
           documentElement (page p') = Some r \<and>
           getAttribute (page p') r ''data-contrast'' =
             (if level = Contrast_default then None else Some (ContrastLevel_str level)) \<and>
           length (ids_with (page p') contrast_style_id) = (if level = Contrast_default then 0 else 1)"
proof -
  define w1 where "w1 = (case getElementById (page p) contrast_style_id of
                          None \<Rightarrow> page p | Some s \<Rightarrow> remove s (page p))"
  obtain h r where base: "wf_world (page p)" "document_head (page p) = Some h"
    "documentElement (page p) = Some r" "r \<in> set (nids (tree (page p)))" "r < next_id (page p)"
    using contrast_readyD[OF ready] by blast
  note c = clear_contrast_style[OF ready, folded w1_def]
  have wf1: "wf_world w1" and none1: "ids_with w1 contrast_style_id = []"
    and h1: "document_head w1 = Some h" and r1: "documentElement w1 = Some r"
    using c base by simp_all
  show ?thesis
  proof (cases "level = Contrast_default")
    case True
    let ?w = "removeAttribute r ''data-contrast'' w1"
    have eq: "applyContrast level p = Inr (p\<lparr>page := ?w\<rparr>)"
      unfolding applyContrast_def Let_def w1_def[symmetric] using True r1 by simp
    have "contrast_ready ?w"
      using wf1 none1 h1 by (simp add: contrast_ready_def)
    then show ?thesis using eq True r1 none1 by simp
  next
    case False
    define st where "st = next_id w1"
    define w3 where "w3 = setAttribute st ''id'' contrast_style_id (snd (createElement ''style'' w1))"
    define w4 where "w4 = appendChild h (DNode st []) w3"
    define w5 where "w5 = setAttribute r ''data-contrast'' (ContrastLevel_str level) w4"
    define w6 where "w6 = set_textContent st (contrast_css p level) w5"
    note inj = inject_style[OF wf1 none1 h1 contrast_style_id_nonempty,
        folded st_def, folded w3_def, folded w4_def]
    have r4: "documentElement w4 = Some r" using inj(4) r1 by simp
    have eq: "applyContrast level p = Inr (p\<lparr>page := w6\<rparr>)"
      unfolding applyContrast_def Let_def w1_def[symmetric]
      apply (subst createElement_pair)
      unfolding prod.case st_def[symmetric] w3_def[symmetric]
      using False inj(1) r4
      by (simp add: w4_def[symmetric] w5_def[symmetric] w6_def[symmetric])
    have wf5: "wf_world w5" using inj(2) by (simp add: w5_def)
    have one5: "ids_with w5 contrast_style_id = [st]" using inj(5) by (simp add: w5_def)
    have st5: "st \<in> set (nids (tree w5))" "is_element w5 st"
      using inj(7) ids_with_in[of st w5 contrast_style_id] one5 by (simp_all add: w5_def)
    have h5: "document_head w5 = Some h" using inj(3) by (simp add: w5_def)
    obtain ht5 where ht5: "documentElement_tree w5 = Some ht5" using document_head_SomeD[OF h5] by blast
    have r5: "documentElement w5 = Some r" using r4 by (simp add: w5_def)
    then have rr: "root_id ht5 = r" using ht5 by (simp add: documentElement_def)
    have r_lt: "r < next_id w1" using base(5) c(6) by simp
    have ne: "st \<noteq> root_id ht5" using rr r_lt by (simp add: st_def)
    have wf6: "wf_world w6" unfolding w6_def by (rule after_set_textContent(1)[OF wf5 st5(1)])
    have one6: "ids_with w6 contrast_style_id = [st]"
      unfolding w6_def by (rule set_textContent_keeps_single[OF wf5 one5])
    have h6: "document_head w6 = Some h" unfolding w6_def
      using structure_after_set_textContent(2)[OF wf5 st5 ht5 ne] h5 by simp
    have r6: "documentElement w6 = Some r" unfolding w6_def
      using structure_after_set_textContent(1)[OF wf5 st5 ht5 ne] r5 by simp
    have r_in5: "r \<in> set (nids (tree w5))"
      using head_position(2)[OF wf5 ht5] rr by simp
    have e6r: "elems w6 r = elems w5 r"
      unfolding w6_def by (rule after_set_textContent(2)[OF wf5 st5(1) r_in5])
    have e6s: "elems w6 st = elems w5 st"
      unfolding w6_def by (rule after_set_textContent(2)[OF wf5 st5(1) st5(1)])
    have attr: "getAttribute w6 r ''data-contrast'' = Some (ContrastLevel_str level)"
      using e6r by (simp add: getAttribute_def w5_def)
    have "tag (elems w6 st) = ''style''" using e6s inj(6) by (simp add: w5_def)
    then have "contrast_ready w6"
      using wf6 one6 h6 by (simp add: contrast_ready_def)
    then show ?thesis using eq False r6 attr one6 by simp
  qed
qed

lemma applyContrast_seq_append:
  "applyContrast_seq (xs @ ys) p =
     (case applyContrast_seq xs p of Inl e \<Rightarrow> Inl e | Inr p1 \<Rightarrow> applyContrast_seq ys p1)"
  by (induction xs arbitrary: p) (auto split: sum.splits)

lemma applyContrast_seq_ready:
  assumes "contrast_ready (page p)"
  shows "\<exists>p'. applyContrast_seq levels p = Inr p' \<and> contrast_ready (page p')"
  using assms
proof (induction levels arbitrary: p)
  case Nil then show ?case by simp
next
  case (Cons l ls)
  obtain p1 where p1: "applyContrast l p = Inr p1" "contrast_ready (page p1)"
    using applyContrast_step[OF Cons.prems, of l] by blast
  obtain p' where "applyContrast_seq ls p1 = Inr p'" "contrast_ready (page p')"
    using Cons.IH[OF p1(2)] by blast
  then show ?case using p1(1) by simp
qed

section \<open>Properties of the announcer\<close>

text \<open>
  C10: for every priority, \<open>announceToScreenReader\<close> called with the empty string
  changes nothing: it returns before the debug toast, before speaking and before the
  live regions are looked up or created, so the document, the speech queue, the timers
  and the queue of animation-frame callbacks are the ones from before the call.
\<close>

theorem announce_empty_message_noop:
  "announceToScreenReader [] prio w = Inr w"
  by (simp add: announceToScreenReader_def)

theorem announce_empty_message_noop_witness:
  "announceToScreenReader [] Assertive empty_page = Inr empty_page"
  by (rule announce_empty_message_noop)

section \<open>Properties of the reading functions\<close>

text \<open>
  C4: every exported entry point is to return early where \<open>document\<close> or \<open>window\<close> does
  not exist, and never to throw. \<open>readMainContent\<close> does not: whatever the rest of the
  state, without \<open>document\<close> it ends in a ReferenceError.
\<close>

theorem readMainContent_throws_without_document:
  "readMainContent (w\<lparr>document_defined := False\<rparr>) = Inl ReferenceError"
  by (simp add: readMainContent_def)

theorem readMainContent_throws_without_document_witness:
  "readMainContent (empty_page\<lparr>document_defined := False\<rparr>) = Inl ReferenceError"
  by (rule readMainContent_throws_without_document)

section \<open>Properties of the accessible name\<close>

text \<open>
  C7, as the specification states it: the name is the first non-empty candidate in the
  order aria-labelledby text, aria-label, label text, title, alt, own text. On the
  button of \<open>name_page\<close> the referent of aria-labelledby exists and is empty: the code
  returns the empty string, the first non-empty candidate is the aria-label
  \<open>Close\<close>. On the image without \<open>alt\<close> the code returns \<open>Image\<close>, where every candidate
  is empty.
\<close>

theorem accessible_name_first_nonempty_counterexample:
  "getAccessibleName 5 name_page = Inr [] \<and> spec_accessible_name name_page 5 = ''Close'' \<and>
   getAccessibleName 7 name_page = Inr ''Image'' \<and> spec_accessible_name name_page 7 = []"
  by code_simp

text \<open>
  C7, amended: the candidates are tried in the stated order, and the result is the
  first non-empty candidate, except that a source that is present decides even when its
  text is empty: existing aria-labelledby referents with empty text give the empty
  string, an existing \<open>label for\<close> with empty text gives the empty string, and an image
  reached with an empty \<open>alt\<close> gives the word \<open>Image\<close>. (Stated for an element whose id
  can be pasted into the \<open>label[for=...]\<close> selector, in a browser.)
\<close>

theorem accessible_name_priority:
  assumes "document_defined w" and "css_string_safe (elem_id w n)"
  shows "getAccessibleName n w = Inr
     (if labelledby_elements w (attr_or_empty w n ''aria-labelledby'') \<noteq> [] \<and>
         labelledby_text w n = [] then []
      else if labelledby_text w n = [] \<and> attr_or_empty w n ''aria-label'' = [] \<and>
              associated_label w n \<noteq> None \<and> associated_label_text w n = [] then []
      else if labelledby_text w n = [] \<and> attr_or_empty w n ''aria-label'' = [] \<and>
              associated_label w n = None \<and> attr_or_empty w n ''title'' = [] \<and>
              tag (elems w n) = ''img'' \<and> attr_or_empty w n ''alt'' = [] then ''Image''
      else spec_accessible_name w n)"
proof -
  define refs where "refs = labelledby_elements w (attr_or_empty w n ''aria-labelledby'')"
  define c1 where "c1 = labelledby_text w n"
  define c2 where "c2 = attr_or_empty w n ''aria-label''"
  define lab where "lab = associated_label w n"
  define c3 where "c3 = associated_label_text w n"
  define c4 where "c4 = attr_or_empty w n ''title''"
  define alt where "alt = attr_or_empty w n ''alt''"
  define c6 where "c6 = trim (textContent w n)"
  define img where "img = (tag (elems w n) = ''img'')"
  have c1_refs: "refs = [] \<Longrightarrow> c1 = []"
    by (simp add: c1_def refs_def labelledby_text_def)
  have c1_eq: "c1 = join '' '' (map (\<lambda>el. trim (textContent w el)) refs)"
    by (simp add: c1_def refs_def labelledby_text_def)
  have c3_lab: "c3 = (case lab of None \<Rightarrow> [] | Some l \<Rightarrow> trim (textContent w l))"
    by (simp add: c3_def lab_def associated_label_text_def)
  have lf: "(if is_form_control w n \<and> elem_id w n \<noteq> [] then label_for (elem_id w n) w else Inr None) = Inr lab"
    using assms(2) by (simp add: lab_def associated_label_def label_for_def)
  have refs_empty: "attr_or_empty w n ''aria-labelledby'' = [] \<Longrightarrow> refs = []"
    by (simp add: refs_def labelledby_elements_def getElementById_def)
  have code: "getAccessibleName n w =
      (if refs \<noteq> [] then Inr c1 else if c2 \<noteq> [] then Inr c2
       else case lab of Some l \<Rightarrow> Inr c3
            | None \<Rightarrow> if c4 \<noteq> [] then Inr c4 else if img then Inr (if alt \<noteq> [] then alt else ''Image'') else Inr c6)"
    unfolding getAccessibleName_def Let_def lf
    unfolding refs_def[symmetric] c1_eq[symmetric] c2_def[symmetric] c4_def[symmetric]
      alt_def[symmetric] c6_def[symmetric] img_def[symmetric]
    using assms(1) refs_empty c3_lab
    by (cases lab) auto
  have spec: "spec_accessible_name w n =
      (if c1 \<noteq> [] then c1 else if c2 \<noteq> [] then c2 else if c3 \<noteq> [] then c3
       else if c4 \<noteq> [] then c4 else if img \<and> alt \<noteq> [] then alt else c6)"
    unfolding spec_accessible_name_def name_candidates_def
    by (simp add: c1_def c2_def c3_def c4_def alt_def c6_def img_def)
  have goal: "(if refs \<noteq> [] then Inr c1 else if c2 \<noteq> [] then Inr c2
       else case lab of Some l \<Rightarrow> Inr c3
            | None \<Rightarrow> if c4 \<noteq> [] then Inr c4 else if img then Inr (if alt \<noteq> [] then alt else ''Image'') else Inr c6)
     = Inr (if refs \<noteq> [] \<and> c1 = [] then []
      else if c1 = [] \<and> c2 = [] \<and> lab \<noteq> None \<and> c3 = [] then []
      else if c1 = [] \<and> c2 = [] \<and> lab = None \<and> c4 = [] \<and> img \<and> alt = [] then ''Image''
      else (if c1 \<noteq> [] then c1 else if c2 \<noteq> [] then c2 else if c3 \<noteq> [] then c3
       else if c4 \<noteq> [] then c4 else if img \<and> alt \<noteq> [] then alt else c6))"
    using c1_refs c3_lab by (cases lab) auto
  show ?thesis
    unfolding code goal spec
    by (simp only: refs_def c1_def c2_def lab_def c3_def c4_def alt_def img_def)
qed

theorem accessible_name_priority_witness:
  "document_defined name_page \<and> css_string_safe (elem_id name_page 8) \<and>
   getAccessibleName 8 name_page = Inr ''Search''"
proof -
  have d: "document_defined name_page" by code_simp
  have s: "css_string_safe (elem_id name_page 8)" by code_simp
  have e: "(if labelledby_elements name_page (attr_or_empty name_page 8 ''aria-labelledby'') \<noteq> [] \<and>
         labelledby_text name_page 8 = [] then []
      else if labelledby_text name_page 8 = [] \<and> attr_or_empty name_page 8 ''aria-label'' = [] \<and>
              associated_label name_page 8 \<noteq> None \<and> associated_label_text name_page 8 = [] then []
      else if labelledby_text name_page 8 = [] \<and> attr_or_empty name_page 8 ''aria-label'' = [] \<and>
              associated_label name_page 8 = None \<and> attr_or_empty name_page 8 ''title'' = [] \<and>
              tag (elems name_page 8) = ''img'' \<and> attr_or_empty name_page 8 ''alt'' = [] then ''Image''
      else spec_accessible_name name_page 8) = ''Search''"
    by code_simp
  from accessible_name_priority[OF d s] have r: "getAccessibleName 8 name_page = Inr ''Search''"
    unfolding e .
  show ?thesis by (intro conjI d s r)
qed

section \<open>Properties of the contrast style\<close>

text \<open>
  C5: in a well-formed document with a head, where the id
  \<open>accessibility-contrast-style\<close> is carried by at most one element, a style element
  (\<open>contrast_ready\<close>; a page that does not use the id is such a document), any sequence of
  calls of \<open>applyContrast\<close> succeeds, and after a call with \<open>level\<close> the root's
  \<open>data-contrast\<close> attribute is the level and exactly one element, a style element, has
  the id; for \<open>default\<close> the attribute is absent and no element has the id. The document
  is \<open>contrast_ready\<close> again, so there is never more than one such element.
\<close>

theorem contrast_matches_level:
  assumes "contrast_ready (page p)"
  shows "\<exists>p' r. applyContrast_seq (levels @ [level]) p = Inr p' \<and>
           documentElement (page p') = Some r \<and>
           getAttribute (page p') r ''data-contrast'' =
             (if level = Contrast_default then None else Some (ContrastLevel_str level)) \<and>
           length (ids_with (page p') contrast_style_id) =
             (if level = Contrast_default then 0 else 1) \<and>
           list_all (\<lambda>s. tag (elems (page p') s) = ''style'')
             (ids_with (page p') contrast_style_id) \<and>
           contrast_ready (page p')"
proof -
  obtain p1 where p1: "applyContrast_seq levels p = Inr p1" "contrast_ready (page p1)"
    using applyContrast_seq_ready[OF assms] by blast
  obtain p' r where p': "applyContrast level p1 = Inr p'" "contrast_ready (page p')"
    "documentElement (page p') = Some r"
    "getAttribute (page p') r ''data-contrast'' =
       (if level = Contrast_default then None else Some (ContrastLevel_str level))"
    "length (ids_with (page p') contrast_style_id) = (if level = Contrast_default then 0 else 1)"
    using applyContrast_step[OF p1(2), of level] by blast
  have "applyContrast_seq (levels @ [level]) p = Inr p'"
    using p1(1) p'(1) by (simp add: applyContrast_seq_append)
  moreover have "list_all (\<lambda>s. tag (elems (page p') s) = ''style'')
                   (ids_with (page p') contrast_style_id)"
    using p'(2) by (simp add: contrast_ready_def)
  ultimately show ?thesis using p'(2-5) by blast
qed

theorem contrast_matches_level_witness:
  "contrast_ready (page (mounted_panel Auto Map.empty empty_page)) \<and>
   (\<exists>p' r. applyContrast_seq ([Contrast_dark] @ [Contrast_default])
              (mounted_panel Auto Map.empty empty_page) = Inr p' \<and>
            documentElement (page p') = Some r \<and>
            getAttribute (page p') r ''data-contrast'' = None \<and>
            length (ids_with (page p') contrast_style_id) = 0)"
proof -
  have r: "contrast_ready (page (mounted_panel Auto Map.empty empty_page))"
    by (simp add: contrast_ready_def wf_world_def mounted_panel_def empty_page_def browser_def
        page_elems_def document_head_def documentElement_tree_def is_element_def ids_with_def
        doc_elements_def getAttribute_def contrast_style_id_def)
  obtain p' r' where
    "applyContrast_seq ([Contrast_dark] @ [Contrast_default])
       (mounted_panel Auto Map.empty empty_page) = Inr p'"
    "documentElement (page p') = Some r'"
    "getAttribute (page p') r' ''data-contrast'' =
       (if Contrast_default = Contrast_default then None
        else Some (ContrastLevel_str Contrast_default))"
    "length (ids_with (page p') contrast_style_id) =
       (if Contrast_default = Contrast_default then 0 else 1)"
    using contrast_matches_level[OF r, of "[Contrast_dark]" Contrast_default] by blast
  then have "\<exists>p' r. applyContrast_seq ([Contrast_dark] @ [Contrast_default])
              (mounted_panel Auto Map.empty empty_page) = Inr p' \<and>
            documentElement (page p') = Some r \<and>
            getAttribute (page p') r ''data-contrast'' = None \<and>
            length (ids_with (page p') contrast_style_id) = 0"
    by (intro exI[of _ p'] exI[of _ r']) simp
  with r show ?thesis by (rule conjI)
qed

end
